theory Spec2Isabelle
  imports Complex_Main "HOL-Library.Multiset" "HOL-Library.Sublist"
begin

section \<open>JavaScript values\<close>

text \<open>
  The services are TypeScript over untyped backend documents (\<^verbatim>\<open>video: any\<close>), so the
  embedding carries JavaScript values explicitly.

  A number is the rational it denotes, or one of the three non-finite doubles. Rounding to
  the nearest double and the sign of zero are not modelled: arithmetic on integers below
  \<open>2^53\<close> is exact in both.
\<close>

datatype number = Fin rat | NaN | PosInf | NegInf

text \<open>
  A field of a backend document is a JSON value, or \<open>Undefined\<close> when the field is
  absent. The contents of a plain object are never inspected by the services.
\<close>

datatype jsval =
    Undefined
  | Null
  | Bool bool
  | Num number
  | Str string
  | Arr "jsval list"
  | Obj

datatype error = TypeError | BackendError string

subsection \<open>Truthiness and the \<^verbatim>\<open>||\<close> operator\<close>

fun num_truthy :: "number \<Rightarrow> bool" where
  "num_truthy (Fin r) = (r \<noteq> 0)"
| "num_truthy NaN = False"
| "num_truthy PosInf = True"
| "num_truthy NegInf = True"

fun truthy :: "jsval \<Rightarrow> bool" where
  "truthy Undefined = False"
| "truthy Null = False"
| "truthy (Bool b) = b"
| "truthy (Num n) = num_truthy n"
| "truthy (Str s) = (s \<noteq> [])"
| "truthy (Arr xs) = True"
| "truthy Obj = True"

definition js_or :: "jsval \<Rightarrow> jsval \<Rightarrow> jsval" where
  "js_or a b = (if truthy a then a else b)"

subsection \<open>Arithmetic on numbers\<close>

fun num_neg :: "number \<Rightarrow> number" where
  "num_neg (Fin r) = Fin (- r)"
| "num_neg NaN = NaN"
| "num_neg PosInf = NegInf"
| "num_neg NegInf = PosInf"

fun num_add :: "number \<Rightarrow> number \<Rightarrow> number" where
  "num_add (Fin a) (Fin b) = Fin (a + b)"
| "num_add NaN _ = NaN"
| "num_add _ NaN = NaN"
| "num_add PosInf NegInf = NaN"
| "num_add NegInf PosInf = NaN"
| "num_add PosInf _ = PosInf"
| "num_add _ PosInf = PosInf"
| "num_add NegInf _ = NegInf"
| "num_add _ NegInf = NegInf"

definition num_sub :: "number \<Rightarrow> number \<Rightarrow> number" where
  "num_sub a b = num_add a (num_neg b)"

text \<open>Multiplication by a finite constant, as in \<^verbatim>\<open>parts[0] * 60\<close>.\<close>

fun num_times :: "number \<Rightarrow> rat \<Rightarrow> number" where
  "num_times (Fin a) c = Fin (a * c)"
| "num_times NaN c = NaN"
| "num_times PosInf c = (if c = 0 then NaN else if 0 < c then PosInf else NegInf)"
| "num_times NegInf c = (if c = 0 then NaN else if 0 < c then NegInf else PosInf)"

text \<open>\<^verbatim>\<open>Math.floor(x / c)\<close> and \<^verbatim>\<open>x % c\<close> for a finite constant \<open>c > 0\<close>. The remainder of
  JavaScript truncates towards zero, so it has the sign of the dividend.\<close>

definition trunc :: "rat \<Rightarrow> int" where
  "trunc x = (if 0 \<le> x then \<lfloor>x\<rfloor> else \<lceil>x\<rceil>)"

fun floor_div :: "number \<Rightarrow> rat \<Rightarrow> number" where
  "floor_div (Fin a) c = Fin (of_int \<lfloor>a / c\<rfloor>)"
| "floor_div n c = n"

fun num_rem :: "number \<Rightarrow> rat \<Rightarrow> number" where
  "num_rem (Fin a) c = Fin (a - c * of_int (trunc (a / c)))"
| "num_rem n c = NaN"

fun num_less :: "number \<Rightarrow> rat \<Rightarrow> bool" where
  "num_less (Fin a) c = (a < c)"
| "num_less NaN c = False"
| "num_less PosInf c = False"
| "num_less NegInf c = True"

subsection \<open>Strings\<close>

text \<open>
  A string is the list of its code units; the model follows JavaScript on code units below
  256 (Latin-1), which is all an Isabelle \<open>char\<close> holds.
\<close>

definition digitChar :: "nat \<Rightarrow> char" where
  "digitChar d = ''0123456789'' ! d"

fun digits :: "nat \<Rightarrow> string" where
  "digits n = (if n < 10 then [digitChar n] else digits (n div 10) @ [digitChar (n mod 10)])"

declare digits.simps [simp del]

definition isDigit :: "char \<Rightarrow> bool" where
  "isDigit c = (c \<in> set ''0123456789'')"

definition digitVal :: "char \<Rightarrow> nat" where
  "digitVal c = of_char c - 48"

definition digitsValue :: "string \<Rightarrow> nat" where
  "digitsValue s = foldl (\<lambda>a c. 10 * a + digitVal c) 0 s"

definition isSpace :: "char \<Rightarrow> bool" where
  "isSpace c = (of_char c \<in> {9, 10, 11, 12, 13, 32, 160 :: nat})"

definition trimStart :: "string \<Rightarrow> string" where
  "trimStart s = dropWhile isSpace s"

definition trim :: "string \<Rightarrow> string" where
  "trim s = rev (dropWhile isSpace (rev (dropWhile isSpace s)))"

definition toLowerChar :: "char \<Rightarrow> char" where
  "toLowerChar c =
     (let n = of_char c :: nat
      in if (65 \<le> n \<and> n \<le> 90) \<or> (192 \<le> n \<and> n \<le> 222 \<and> n \<noteq> 215)
         then char_of (n + 32) else c)"

definition toLowerCase :: "string \<Rightarrow> string" where
  "toLowerCase s = map toLowerChar s"

text \<open>\<^verbatim>\<open>s.includes(q)\<close>: \<open>q\<close> occurs in \<open>s\<close> at some position.\<close>

fun str_includes :: "string \<Rightarrow> string \<Rightarrow> bool" where
  "str_includes [] q = (q = [])"
| "str_includes (c # s) q = (prefix q (c # s) \<or> str_includes s q)"

text \<open>\<^verbatim>\<open>s.padStart(2, '0')\<close>.\<close>

definition padStart2 :: "string \<Rightarrow> string" where
  "padStart2 s = replicate (2 - length s) CHR ''0'' @ s"

text \<open>\<^verbatim>\<open>s.split(':')\<close>: always at least one part.\<close>

fun split_colon :: "string \<Rightarrow> string list" where
  "split_colon [] = [[]]"
| "split_colon (c # s) =
     (if c = CHR '':'' then [] # split_colon s
      else (case split_colon s of p # ps \<Rightarrow> (c # p) # ps | [] \<Rightarrow> [[c]]))"

subsection \<open>Strings to numbers\<close>

text \<open>
  \<^verbatim>\<open>parseFloat\<close> reads the longest prefix that is a decimal literal (after leading white
  space); \<^verbatim>\<open>Number\<close> wants the whole trimmed string to be a numeric literal and reads the
  empty string as 0.
\<close>

definition pow10 :: "int \<Rightarrow> rat" where
  "pow10 e = (if 0 \<le> e then 10 ^ nat e else 1 / 10 ^ nat (- e))"

definition exponentPart :: "string \<Rightarrow> int \<times> string" where
  "exponentPart s =
     (case s of
        [] \<Rightarrow> (0, s)
      | c # r \<Rightarrow>
          if c = CHR ''e'' \<or> c = CHR ''E'' then
            (let (sg, r') =
                   (case r of
                      [] \<Rightarrow> (1, r)
                    | d # r1 \<Rightarrow>
                        if d = CHR ''+'' then (1, r1)
                        else if d = CHR ''-'' then (- 1, r1)
                        else (1, r));
                 ds = takeWhile isDigit r'
             in if ds = [] then (0, s) else (sg * int (digitsValue ds), dropWhile isDigit r'))
          else (0, s))"

definition strUnsignedDecimalLiteral :: "string \<Rightarrow> (number \<times> string) option" where
  "strUnsignedDecimalLiteral s =
     (if prefix ''Infinity'' s then Some (PosInf, drop 8 s)
      else
        (let ip = takeWhile isDigit s; r1 = dropWhile isDigit s
         in case r1 of
              [] \<Rightarrow> if ip = [] then None else Some (Fin (of_nat (digitsValue ip)), [])
            | c # r2 \<Rightarrow>
                if c = CHR ''.'' then
                  (let fp = takeWhile isDigit r2; r3 = dropWhile isDigit r2
                   in if ip = [] \<and> fp = [] then None
                      else
                        (let (e, r4) = exponentPart r3
                         in Some (Fin ((of_nat (digitsValue ip)
                                        + of_nat (digitsValue fp) / 10 ^ length fp) * pow10 e), r4)))
                else if ip = [] then None
                else
                  (let (e, r4) = exponentPart r1
                   in Some (Fin (of_nat (digitsValue ip) * pow10 e), r4))))"

definition strDecimalLiteral :: "string \<Rightarrow> (number \<times> string) option" where
  "strDecimalLiteral s =
     (case s of
        [] \<Rightarrow> None
      | c # r \<Rightarrow>
          if c = CHR ''+'' then strUnsignedDecimalLiteral r
          else if c = CHR ''-'' then
            (case strUnsignedDecimalLiteral r of
               None \<Rightarrow> None
             | Some (v, r') \<Rightarrow> Some (num_neg v, r'))
          else strUnsignedDecimalLiteral s)"

definition parseFloatString :: "string \<Rightarrow> number" where
  "parseFloatString s =
     (case strDecimalLiteral (trimStart s) of None \<Rightarrow> NaN | Some (v, r) \<Rightarrow> v)"

definition hexVal :: "char \<Rightarrow> nat option" where
  "hexVal c =
     (let n = of_char c :: nat
      in if 48 \<le> n \<and> n \<le> 57 then Some (n - 48)
         else if 97 \<le> n \<and> n \<le> 102 then Some (n - 87)
         else if 65 \<le> n \<and> n \<le> 70 then Some (n - 55)
         else None)"

definition radixValue :: "nat \<Rightarrow> string \<Rightarrow> nat option" where
  "radixValue b ds =
     (if ds \<noteq> [] \<and> list_all (\<lambda>c. case hexVal c of None \<Rightarrow> False | Some d \<Rightarrow> d < b) ds
      then Some (foldl (\<lambda>a c. b * a + (case hexVal c of None \<Rightarrow> 0 | Some d \<Rightarrow> d)) 0 ds)
      else None)"

definition nonDecimalLiteral :: "string \<Rightarrow> number option" where
  "nonDecimalLiteral s =
     (case s of
        z # x # ds \<Rightarrow>
          if z = CHR ''0'' then
            (let b = (if x = CHR ''x'' \<or> x = CHR ''X'' then 16
                      else if x = CHR ''o'' \<or> x = CHR ''O'' then 8
                      else if x = CHR ''b'' \<or> x = CHR ''B'' then 2
                      else (0 :: nat))
             in if b = 0 then None else map_option (\<lambda>n. Fin (of_nat n)) (radixValue b ds))
          else None
      | _ \<Rightarrow> None)"

definition stringToNumber :: "string \<Rightarrow> number" where
  "stringToNumber s =
     (let t = trim s
      in if t = [] then Fin 0
         else
           (case nonDecimalLiteral t of
              Some v \<Rightarrow> v
            | None \<Rightarrow>
                (case strDecimalLiteral t of
                   Some (v, []) \<Rightarrow> v
                 | _ \<Rightarrow> NaN)))"

subsection \<open>The runtime\<close>

text \<open>
  What the services take from the JavaScript runtime and this model leaves open: the
  clock read by \<^verbatim>\<open>new Date().toISOString()\<close>, the time value \<^verbatim>\<open>new Date(v).getTime()\<close>
  of a value, and the decimal rendering of a number that is not an integer below \<open>10^21\<close>.
\<close>

record runtime =
  now_iso :: string
  date_getTime :: "jsval \<Rightarrow> number"
  number_toString_other :: "rat \<Rightarrow> string"

definition numberToString :: "runtime \<Rightarrow> number \<Rightarrow> string" where
  "numberToString rt n =
     (case n of
        NaN \<Rightarrow> ''NaN''
      | PosInf \<Rightarrow> ''Infinity''
      | NegInf \<Rightarrow> ''-Infinity''
      | Fin r \<Rightarrow>
          if of_int \<lfloor>r\<rfloor> = r \<and> \<bar>r\<bar> < 10 ^ 21
          then (if r < 0 then CHR ''-'' # digits (nat (- \<lfloor>r\<rfloor>)) else digits (nat \<lfloor>r\<rfloor>))
          else number_toString_other rt r)"

fun join_comma :: "string list \<Rightarrow> string" where
  "join_comma [] = []"
| "join_comma [s] = s"
| "join_comma (s # t # ss) = s @ '','' @ join_comma (t # ss)"

text \<open>\<^verbatim>\<open>String(v)\<close>; an array joins its elements with commas, \<^verbatim>\<open>null\<close> and
  \<^verbatim>\<open>undefined\<close> elements as empty strings.\<close>

fun jsToString :: "runtime \<Rightarrow> jsval \<Rightarrow> string" where
  "jsToString rt Undefined = ''undefined''"
| "jsToString rt Null = ''null''"
| "jsToString rt (Bool b) = (if b then ''true'' else ''false'')"
| "jsToString rt (Num n) = numberToString rt n"
| "jsToString rt (Str s) = s"
| "jsToString rt (Arr xs) =
     join_comma (map (\<lambda>x. if x = Undefined \<or> x = Null then [] else jsToString rt x) xs)"
| "jsToString rt Obj = ''[object Object]''"

definition parseFloat :: "runtime \<Rightarrow> jsval \<Rightarrow> number" where
  "parseFloat rt v = parseFloatString (jsToString rt v)"

section \<open>VideoService\<close>

subsection \<open>normalizeVideo\<close>

text \<open>A backend document: the value of each field, \<open>Undefined\<close> where it has none.\<close>

type_synonym document = "string \<Rightarrow> jsval"

record Video =
  doc_id :: jsval
  title :: jsval
  description :: jsval
  price :: number
  duration :: string
  videoFileId :: jsval
  video_id :: jsval
  thumbnailFileId :: jsval
  thumbnail_id :: jsval
  thumbnailUrl :: jsval
  isPurchased :: jsval
  createdAt :: jsval
  views :: number
  product_link :: jsval

definition formatDuration :: "runtime \<Rightarrow> number \<Rightarrow> string" where
  "formatDuration rt totalSeconds =
     (let minutes = floor_div totalSeconds 60;
          seconds = num_rem totalSeconds 60
      in if num_less minutes 60
         then padStart2 (numberToString rt minutes) @ '':'' @ padStart2 (numberToString rt seconds)
         else
           (let hours = floor_div minutes 60;
                remainingMinutes = num_rem minutes 60
            in padStart2 (numberToString rt hours) @ '':''
               @ padStart2 (numberToString rt remainingMinutes) @ '':''
               @ padStart2 (numberToString rt seconds)))"

definition normalizeVideo :: "runtime \<Rightarrow> document \<Rightarrow> Video" where
  "normalizeVideo rt video =
     (let formattedDuration =
            (case video ''duration'' of
               Num totalSeconds \<Rightarrow> formatDuration rt totalSeconds
             | _ \<Rightarrow> ''00:00'')
      in \<lparr> doc_id = video ''$id'',
           title = js_or (video ''title'') (Str ''Untitled''),
           description = js_or (video ''description'') (Str []),
           price = (case video ''price'' of
                      Num p \<Rightarrow> p
                    | v \<Rightarrow> parseFloat rt (js_or v (Str ''0''))),
           duration = (if truthy (video ''duration'') then formattedDuration else ''00:00''),
           videoFileId = js_or (video ''video_id'') Null,
           video_id = js_or (video ''video_id'') Null,
           thumbnailFileId = js_or (video ''thumbnail_id'') Null,
           thumbnail_id = js_or (video ''thumbnail_id'') Null,
           thumbnailUrl = js_or (video ''thumbnailUrl'') Null,
           isPurchased = js_or (video ''isPurchased'') (Bool False),
           createdAt = js_or (video ''created_at'') (Str (now_iso rt)),
           views = (case video ''views'' of Num n \<Rightarrow> n | _ \<Rightarrow> Fin 0),
           product_link = js_or (video ''product_link'') (Str []) \<rparr>)"

subsection \<open>Sorting\<close>

text \<open>The duration parser of the \<^verbatim>\<open>DURATION_DESC\<close> comparator.\<close>

definition getDurationInSeconds :: "string \<Rightarrow> number" where
  "getDurationInSeconds durationString =
     (case map stringToNumber (split_colon durationString) of
        [m, s] \<Rightarrow> num_add (num_times m 60) s
      | [h, m, s] \<Rightarrow> num_add (num_add (num_times h 3600) (num_times m 60)) s
      | _ \<Rightarrow> Fin 0)"

datatype SortOption = NEWEST | PRICE_ASC | PRICE_DESC | VIEWS_DESC | DURATION_DESC

text \<open>\<^verbatim>\<open>b.views || 0\<close> on a number.\<close>

definition num_or_zero :: "number \<Rightarrow> number" where
  "num_or_zero n = (if num_truthy n then n else Fin 0)"

definition compareVideos :: "runtime \<Rightarrow> SortOption \<Rightarrow> Video \<Rightarrow> Video \<Rightarrow> number" where
  "compareVideos rt sortOption a b =
     (case sortOption of
        NEWEST \<Rightarrow> num_sub (date_getTime rt (createdAt b)) (date_getTime rt (createdAt a))
      | PRICE_ASC \<Rightarrow> num_sub (price a) (price b)
      | PRICE_DESC \<Rightarrow> num_sub (price b) (price a)
      | VIEWS_DESC \<Rightarrow> num_sub (num_or_zero (views b)) (num_or_zero (views a))
      | DURATION_DESC \<Rightarrow>
          num_sub (getDurationInSeconds (duration b)) (getDurationInSeconds (duration a)))"

text \<open>
  \<^verbatim>\<open>Array.prototype.sort\<close> with a comparator: \<open>a\<close> goes before \<open>b\<close> when the
  comparator is negative on \<open>(a, b)\<close>, and a \<open>NaN\<close> result counts as 0. The sort is stable;
  the model is the stable insertion sort. (With a comparator that is not a consistent order
  the language leaves the order to the implementation; the result is a permutation of the
  array in any case.)
\<close>

fun num_negative :: "number \<Rightarrow> bool" where
  "num_negative (Fin r) = (r < 0)"
| "num_negative NegInf = True"
| "num_negative n = False"

fun insert_by :: "('a \<Rightarrow> 'a \<Rightarrow> number) \<Rightarrow> 'a \<Rightarrow> 'a list \<Rightarrow> 'a list" where
  "insert_by cmp x [] = [x]"
| "insert_by cmp x (y # ys) =
     (if num_negative (cmp y x) then y # insert_by cmp x ys else x # y # ys)"

fun js_sort :: "('a \<Rightarrow> 'a \<Rightarrow> number) \<Rightarrow> 'a list \<Rightarrow> 'a list" where
  "js_sort cmp [] = []"
| "js_sort cmp (x # xs) = insert_by cmp x (js_sort cmp xs)"

subsection \<open>The backend\<close>

text \<open>
  The Appwrite client, as the answers it gives: each call either throws (\<open>Inl\<close>) or
  returns. \<open>getFileView\<close> returns the \<^verbatim>\<open>href\<close> of the URL object. The database and
  collection identifiers of \<^verbatim>\<open>node_appwrite\<close> are fixed, so the calls are taken at them;
  the two bucket identifiers are fields.
\<close>

record backend =
  listDocuments :: "error + document list"
  getDocument :: "string \<Rightarrow> error + document"
  updateDocument :: "string \<Rightarrow> (string \<times> jsval) list \<Rightarrow> error + unit"
  getFileView :: "string \<Rightarrow> jsval \<Rightarrow> error + string"
  videosBucketId :: string
  thumbnailsBucketId :: string

subsection \<open>getAllVideos\<close>

text \<open>\<^verbatim>\<open>v.toLowerCase()\<close>: only a string has the method.\<close>

definition toLowerCase_of :: "jsval \<Rightarrow> error + string" where
  "toLowerCase_of v = (case v of Str s \<Rightarrow> Inr (toLowerCase s) | _ \<Rightarrow> Inl TypeError)"

text \<open>The predicate of the search filter; \<^verbatim>\<open>||\<close> does not evaluate the description
  when the title matches.\<close>

definition matchesQuery :: "string \<Rightarrow> Video \<Rightarrow> error + bool" where
  "matchesQuery trimmedQuery video =
     (case toLowerCase_of (title video) of
        Inl e \<Rightarrow> Inl e
      | Inr t \<Rightarrow>
          if str_includes t trimmedQuery then Inr True
          else
            (case toLowerCase_of (description video) of
               Inl e \<Rightarrow> Inl e
             | Inr d \<Rightarrow> Inr (str_includes d trimmedQuery)))"

text \<open>\<^verbatim>\<open>Array.prototype.filter\<close> with a predicate that may throw: the first exception
  ends the loop.\<close>

fun filter_throwing :: "('a \<Rightarrow> error + bool) \<Rightarrow> 'a list \<Rightarrow> error + 'a list" where
  "filter_throwing p [] = Inr []"
| "filter_throwing p (x # xs) =
     (case p x of
        Inl e \<Rightarrow> Inl e
      | Inr keep \<Rightarrow>
          (case filter_throwing p xs of
             Inl e \<Rightarrow> Inl e
           | Inr ys \<Rightarrow> Inr (if keep then x # ys else ys)))"

definition placeholderUrl :: string where
  "placeholderUrl = ''https://via.placeholder.com/300x180?text=Video+Thumbnail''"

text \<open>The thumbnail block, the same in \<^verbatim>\<open>getAllVideos\<close> and \<^verbatim>\<open>getVideo\<close>: its own
  \<^verbatim>\<open>try\<close>/\<^verbatim>\<open>catch\<close> turns a failed lookup into the placeholder.\<close>

definition resolveThumbnail :: "backend \<Rightarrow> Video \<Rightarrow> Video" where
  "resolveThumbnail be video =
     (let thumbnailId = js_or (thumbnailFileId video) (thumbnail_id video)
      in if truthy thumbnailId then
           (case getFileView be (thumbnailsBucketId be) thumbnailId of
              Inr href \<Rightarrow> video\<lparr>thumbnailUrl := Str href\<rparr>
            | Inl e \<Rightarrow> video\<lparr>thumbnailUrl := Str placeholderUrl\<rparr>)
         else video\<lparr>thumbnailUrl := Str placeholderUrl\<rparr>)"

text \<open>The body of the \<^verbatim>\<open>try\<close>. One clock reading serves the documents of one listing.\<close>

definition getAllVideos_try ::
  "runtime \<Rightarrow> backend \<Rightarrow> SortOption \<Rightarrow> string \<Rightarrow> error + Video list" where
  "getAllVideos_try rt be sortOption searchQuery =
     (case listDocuments be of
        Inl e \<Rightarrow> Inl e
      | Inr documents \<Rightarrow>
          (case (if searchQuery \<noteq> [] \<and> trim searchQuery \<noteq> []
                 then filter_throwing (matchesQuery (toLowerCase (trim searchQuery)))
                        (map (normalizeVideo rt) documents)
                 else Inr (map (normalizeVideo rt) documents)) of
             Inl e \<Rightarrow> Inl e
           | Inr videos \<Rightarrow>
               Inr (js_sort (compareVideos rt sortOption) (map (resolveThumbnail be) videos))))"

text \<open>The \<^verbatim>\<open>catch\<close> logs and throws the error again.\<close>

definition getAllVideos ::
  "runtime \<Rightarrow> backend \<Rightarrow> SortOption \<Rightarrow> string \<Rightarrow> error + Video list" where
  "getAllVideos rt be sortOption searchQuery =
     (case getAllVideos_try rt be sortOption searchQuery of
        Inl e \<Rightarrow> Inl e
      | Inr videos \<Rightarrow> Inr videos)"

subsection \<open>getVideo\<close>

definition getVideo_try :: "runtime \<Rightarrow> backend \<Rightarrow> string \<Rightarrow> error + Video" where
  "getVideo_try rt be videoId =
     (case getDocument be videoId of
        Inl e \<Rightarrow> Inl e
      | Inr videoDoc \<Rightarrow> Inr (resolveThumbnail be (normalizeVideo rt videoDoc)))"

text \<open>The \<^verbatim>\<open>catch\<close> returns \<^verbatim>\<open>null\<close> (\<open>None\<close>).\<close>

definition getVideo :: "runtime \<Rightarrow> backend \<Rightarrow> string \<Rightarrow> error + Video option" where
  "getVideo rt be videoId =
     (case getVideo_try rt be videoId of
        Inl e \<Rightarrow> Inr None
      | Inr video \<Rightarrow> Inr (Some video))"

subsection \<open>incrementViews\<close>

text \<open>\<^verbatim>\<open>v + n\<close> for a number \<open>n\<close>: a string or an object on the left concatenates.\<close>

definition js_plus :: "runtime \<Rightarrow> jsval \<Rightarrow> number \<Rightarrow> jsval" where
  "js_plus rt v n =
     (case v of
        Undefined \<Rightarrow> Num NaN
      | Null \<Rightarrow> Num (num_add (Fin 0) n)
      | Bool b \<Rightarrow> Num (num_add (Fin (if b then 1 else 0)) n)
      | Num a \<Rightarrow> Num (num_add a n)
      | Str s \<Rightarrow> Str (s @ numberToString rt n)
      | Arr xs \<Rightarrow> Str (jsToString rt (Arr xs) @ numberToString rt n)
      | Obj \<Rightarrow> Str (jsToString rt Obj @ numberToString rt n))"

definition incrementViews_try :: "runtime \<Rightarrow> backend \<Rightarrow> string \<Rightarrow> error + unit" where
  "incrementViews_try rt be videoId =
     (case getDocument be videoId of
        Inl e \<Rightarrow> Inl e
      | Inr video \<Rightarrow>
          (let currentViews = js_or (video ''views'') (Num (Fin 0))
           in updateDocument be videoId [(''views'', js_plus rt currentViews (Fin 1))]))"

definition incrementViews :: "runtime \<Rightarrow> backend \<Rightarrow> string \<Rightarrow> error + unit" where
  "incrementViews rt be videoId =
     (case incrementViews_try rt be videoId of
        Inl e \<Rightarrow> Inr ()
      | Inr u \<Rightarrow> Inr ())"

subsection \<open>getVideosWithPagination\<close>

text \<open>
  \<open>page\<close> and \<open>perPage\<close> are integers. \<^verbatim>\<open>Math.ceil(n / d)\<close> of a length and an integer;
  \<^verbatim>\<open>xs.slice(start, end)\<close> with integer bounds, a negative one counting from the end.
\<close>

definition ceil_div :: "nat \<Rightarrow> int \<Rightarrow> number" where
  "ceil_div n d =
     (if d = 0 then (if n = 0 then NaN else PosInf)
      else Fin (of_int \<lceil>(of_nat n :: rat) / of_int d\<rceil>))"

definition js_slice :: "'a list \<Rightarrow> int \<Rightarrow> int \<Rightarrow> 'a list" where
  "js_slice xs start final =
     (let len = int (length xs);
          k = (if start < 0 then max (len + start) 0 else min start len);
          fin = (if final < 0 then max (len + final) 0 else min final len)
      in take (nat (fin - k)) (drop (nat k) xs))"

record Page =
  videos :: "Video list"
  totalPages :: number

definition getVideosWithPagination ::
  "runtime \<Rightarrow> backend \<Rightarrow> int \<Rightarrow> int \<Rightarrow> SortOption \<Rightarrow> string \<Rightarrow> error + Page" where
  "getVideosWithPagination rt be page perPage sortOption searchQuery =
     (case getAllVideos rt be sortOption searchQuery of
        Inl e \<Rightarrow> Inl e
      | Inr allVideos \<Rightarrow>
          (let startIndex = (page - 1) * perPage;
               endIndex = startIndex + perPage
           in Inr \<lparr> videos = js_slice allVideos startIndex endIndex,
                    totalPages = ceil_div (length allVideos) perPage \<rparr>))"

subsection \<open>getVideoFileUrl\<close>

definition getVideoFileUrl_try :: "runtime \<Rightarrow> backend \<Rightarrow> string \<Rightarrow> error + string option" where
  "getVideoFileUrl_try rt be videoId =
     (case getVideo rt be videoId of
        Inl e \<Rightarrow> Inl e
      | Inr None \<Rightarrow> Inr None
      | Inr (Some video) \<Rightarrow>
          (let fileId = js_or (video_id video) (videoFileId video)
           in if \<not> truthy fileId then Inr None
              else
                (case getFileView be (videosBucketId be) fileId of
                   Inr href \<Rightarrow> Inr (Some href)
                 | Inl e \<Rightarrow> Inr None)))"

definition getVideoFileUrl :: "runtime \<Rightarrow> backend \<Rightarrow> string \<Rightarrow> error + string option" where
  "getVideoFileUrl rt be videoId =
     (case getVideoFileUrl_try rt be videoId of
        Inl e \<Rightarrow> Inr None
      | Inr url \<Rightarrow> Inr url)"

section \<open>AppwriteSchemaManager\<close>

text \<open>
  The manager as \<^verbatim>\<open>AppwriteSchemaManager.ts\<close> first gives it, reading the attributes with
  \<^verbatim>\<open>getCollection\<close>. The second copy in the repository reads them with
  \<^verbatim>\<open>listAttributes\<close> and passes \<^verbatim>\<open>min || null\<close> and \<^verbatim>\<open>max || null\<close>; its loop and its
  test for an existing key are the same.

  A declared attribute is an object literal; a property the literal does not have reads as
  \<open>Undefined\<close>.
\<close>

record attribute =
  key :: string
  attr_type :: string
  required :: bool
  defaultValue :: jsval
  attr_min :: jsval
  attr_max :: jsval

definition attr :: "string \<Rightarrow> string \<Rightarrow> bool \<Rightarrow> attribute" where
  "attr k t r =
     \<lparr> key = k, attr_type = t, required = r,
       defaultValue = Undefined, attr_min = Undefined, attr_max = Undefined \<rparr>"

text \<open>
  The calls that write to the backend. Reconciliation has no other: it never updates or
  deletes an attribute. The arguments are the collection, the key, the required flag, the
  default, and then the size and array flag of a string or the bounds of a number.
\<close>

datatype create_call =
    CreateStringAttribute string string bool jsval int jsval
  | CreateIntegerAttribute string string bool jsval jsval jsval
  | CreateFloatAttribute string string bool jsval jsval jsval
  | CreateBooleanAttribute string string bool jsval
  | CreateDatetimeAttribute string string bool jsval

text \<open>
  The backend of the schema manager: the attribute objects \<open>getCollection\<close> reports for a
  collection, and the outcome of each create call.
\<close>

record schema_backend =
  getCollection :: "string \<Rightarrow> error + document list"
  createAttribute :: "create_call \<Rightarrow> error + unit"
  videoCollectionId :: string
  siteConfigCollectionId :: string
  userCollectionId :: string
  sessionCollectionId :: string

text \<open>
  The loop over the required attributes, the same in the four functions, which differ in
  the \<^verbatim>\<open>switch\<close> that builds the call (\<open>None\<close>: no case matches, nothing is called). It
  returns how the loop ended and the calls it issued, in order; a call that throws ends it.
  The pause after each creation is not modelled.
\<close>

fun createMissing ::
  "schema_backend \<Rightarrow> (attribute \<Rightarrow> create_call option) \<Rightarrow> document list \<Rightarrow> attribute list
     \<Rightarrow> (error + unit) \<times> create_call list" where
  "createMissing sb build existingAttributes [] = (Inr (), [])"
| "createMissing sb build existingAttributes (a # rest) =
     (if list_ex (\<lambda>existing. existing ''key'' = Str (key a)) existingAttributes
      then createMissing sb build existingAttributes rest
      else
        (case build a of
           None \<Rightarrow> createMissing sb build existingAttributes rest
         | Some call \<Rightarrow>
             (case createAttribute sb call of
                Inl e \<Rightarrow> (Inl e, [call])
              | Inr u \<Rightarrow>
                  (case createMissing sb build existingAttributes rest of
                     (r, calls) \<Rightarrow> (r, call # calls)))))"

text \<open>The body of each \<^verbatim>\<open>try\<close>, and the \<^verbatim>\<open>catch\<close> that logs and returns: what is left
  of a run is the list of calls it issued.\<close>

definition ensureAttributes_try ::
  "schema_backend \<Rightarrow> string \<Rightarrow> (attribute \<Rightarrow> create_call option) \<Rightarrow> attribute list
     \<Rightarrow> (error + unit) \<times> create_call list" where
  "ensureAttributes_try sb collectionId build requiredAttributes =
     (case getCollection sb collectionId of
        Inl e \<Rightarrow> (Inl e, [])
      | Inr existingAttributes \<Rightarrow> createMissing sb build existingAttributes requiredAttributes)"

definition videoRequiredAttributes :: "attribute list" where
  "videoRequiredAttributes =
     [ attr ''title'' ''string'' True,
       attr ''description'' ''string'' False,
       (attr ''price'' ''double'' True)\<lparr>attr_min := Num (Fin 0)\<rparr>,
       (attr ''duration'' ''integer'' False)\<lparr>attr_min := Num (Fin 0)\<rparr>,
       attr ''video_id'' ''string'' False,
       attr ''thumbnail_id'' ''string'' False,
       attr ''created_at'' ''datetime'' False,
       (attr ''is_active'' ''boolean'' False)\<lparr>defaultValue := Bool True\<rparr>,
       (attr ''views'' ''integer'' False)\<lparr>attr_min := Num (Fin 0), defaultValue := Num (Fin 0)\<rparr>,
       attr ''product_link'' ''string'' False ]"

definition videoCreateCall :: "string \<Rightarrow> attribute \<Rightarrow> create_call option" where
  "videoCreateCall c a =
     (if attr_type a = ''string'' then
        Some (CreateStringAttribute c (key a) (required a) (js_or (defaultValue a) Null) 255 Undefined)
      else if attr_type a = ''integer'' then
        Some (CreateIntegerAttribute c (key a) (required a) (js_or (defaultValue a) Null)
                (attr_min a) (attr_max a))
      else if attr_type a = ''double'' then
        Some (CreateFloatAttribute c (key a) (required a) (js_or (defaultValue a) Null)
                (attr_min a) (attr_max a))
      else if attr_type a = ''boolean'' then
        Some (CreateBooleanAttribute c (key a) (required a) (js_or (defaultValue a) Null))
      else if attr_type a = ''datetime'' then
        Some (CreateDatetimeAttribute c (key a) (required a) (js_or (defaultValue a) Null))
      else None)"

definition ensureVideoCollectionAttributes :: "schema_backend \<Rightarrow> create_call list" where
  "ensureVideoCollectionAttributes sb =
     (case ensureAttributes_try sb (videoCollectionId sb)
             (videoCreateCall (videoCollectionId sb)) videoRequiredAttributes of
        (Inl e, calls) \<Rightarrow> calls
      | (Inr u, calls) \<Rightarrow> calls)"

definition siteConfigRequiredAttributes :: "attribute list" where
  "siteConfigRequiredAttributes =
     [ attr ''site_name'' ''string'' True,
       attr ''paypal_client_id'' ''string'' False,
       attr ''stripe_publishable_key'' ''string'' False,
       attr ''stripe_secret_key'' ''string'' False,
       attr ''telegram_username'' ''string'' False,
       attr ''video_list_title'' ''string'' False,
       attr ''crypto'' ''string[]'' False,
       attr ''email_host'' ''string'' False,
       attr ''email_port'' ''string'' False,
       attr ''email_secure'' ''boolean'' False,
       attr ''email_user'' ''string'' False,
       attr ''email_pass'' ''string'' False,
       attr ''email_from'' ''string'' False ]"

definition siteConfigCreateCall :: "string \<Rightarrow> attribute \<Rightarrow> create_call option" where
  "siteConfigCreateCall c a =
     (if attr_type a = ''string[]'' then
        Some (CreateStringAttribute c (key a) (required a) Null 255 (Bool True))
      else if attr_type a = ''string'' then
        Some (CreateStringAttribute c (key a) (required a) (js_or (defaultValue a) Null) 255 Undefined)
      else if attr_type a = ''boolean'' then
        Some (CreateBooleanAttribute c (key a) (required a) (js_or (defaultValue a) Null))
      else None)"

definition ensureSiteConfigCollectionAttributes :: "schema_backend \<Rightarrow> create_call list" where
  "ensureSiteConfigCollectionAttributes sb =
     (case ensureAttributes_try sb (siteConfigCollectionId sb)
             (siteConfigCreateCall (siteConfigCollectionId sb)) siteConfigRequiredAttributes of
        (Inl e, calls) \<Rightarrow> calls
      | (Inr u, calls) \<Rightarrow> calls)"

definition userRequiredAttributes :: "attribute list" where
  "userRequiredAttributes =
     [ attr ''email'' ''string'' True,
       attr ''name'' ''string'' True,
       attr ''password'' ''string'' True,
       attr ''created_at'' ''datetime'' False ]"

text \<open>The \<^verbatim>\<open>switch\<close> of the user and of the session collection.\<close>

definition stringOrDatetimeCreateCall :: "string \<Rightarrow> attribute \<Rightarrow> create_call option" where
  "stringOrDatetimeCreateCall c a =
     (if attr_type a = ''string'' then
        Some (CreateStringAttribute c (key a) (required a) (js_or (defaultValue a) Null) 255 Undefined)
      else if attr_type a = ''datetime'' then
        Some (CreateDatetimeAttribute c (key a) (required a) (js_or (defaultValue a) Null))
      else None)"

definition ensureUserCollectionAttributes :: "schema_backend \<Rightarrow> create_call list" where
  "ensureUserCollectionAttributes sb =
     (case ensureAttributes_try sb (userCollectionId sb)
             (stringOrDatetimeCreateCall (userCollectionId sb)) userRequiredAttributes of
        (Inl e, calls) \<Rightarrow> calls
      | (Inr u, calls) \<Rightarrow> calls)"

definition sessionRequiredAttributes :: "attribute list" where
  "sessionRequiredAttributes =
     [ attr ''user_id'' ''string'' True,
       attr ''token'' ''string'' True,
       attr ''expires_at'' ''datetime'' True,
       attr ''created_at'' ''datetime'' False,
       attr ''ip_address'' ''string'' False,
       attr ''user_agent'' ''string'' False ]"

definition ensureSessionCollectionAttributes :: "schema_backend \<Rightarrow> create_call list" where
  "ensureSessionCollectionAttributes sb =
     (case ensureAttributes_try sb (sessionCollectionId sb)
             (stringOrDatetimeCreateCall (sessionCollectionId sb)) sessionRequiredAttributes of
        (Inl e, calls) \<Rightarrow> calls
      | (Inr u, calls) \<Rightarrow> calls)"

text \<open>
  \<^verbatim>\<open>initializeSchema\<close> awaits the four together and throws again what \<^verbatim>\<open>Promise.all\<close>
  rejects with. None of the four promises rejects, each function having caught its own
  errors. The four run interleaved, each on its own collection; the calls are listed
  collection by collection.
\<close>

definition initializeSchema_try :: "schema_backend \<Rightarrow> error + create_call list" where
  "initializeSchema_try sb =
     Inr (ensureVideoCollectionAttributes sb @ ensureSiteConfigCollectionAttributes sb
          @ ensureUserCollectionAttributes sb @ ensureSessionCollectionAttributes sb)"

definition initializeSchema :: "schema_backend \<Rightarrow> error + create_call list" where
  "initializeSchema sb =
     (case initializeSchema_try sb of
        Inl e \<Rightarrow> Inl e
      | Inr calls \<Rightarrow> Inr calls)"

section \<open>A small catalogue\<close>

text \<open>Concrete inputs on which the results below are instantiated: a runtime, two
  documents, a backend that serves them and one that is down, and a schema backend whose
  collections already have every declared attribute.\<close>

definition example_runtime :: runtime where
  "example_runtime =
     \<lparr> now_iso = ''2024-05-01T10:00:00.000Z'',
       date_getTime = (\<lambda>v. NaN),
       number_toString_other = (\<lambda>r. ''?'') \<rparr>"

definition emptyDocument :: document where
  "emptyDocument = (\<lambda>field. Undefined)"

definition catDocument :: document where
  "catDocument =
     emptyDocument
       (''$id'' := Str ''v1'', ''title'' := Str ''Cat Video'', ''description'' := Str ''A cat.'',
        ''price'' := Num (Fin 30), ''duration'' := Num (Fin 125),
        ''video_id'' := Str ''f1'', ''thumbnail_id'' := Str ''t1'',
        ''created_at'' := Str ''2024-04-01T08:00:00.000Z'', ''views'' := Num (Fin 3))"

definition dogDocument :: document where
  "dogDocument =
     emptyDocument
       (''$id'' := Str ''v2'', ''title'' := Str ''Dog Clip'', ''price'' := Num (Fin 10),
        ''duration'' := Num (Fin 3725))"

definition example_backend :: backend where
  "example_backend =
     \<lparr> listDocuments = Inr [catDocument, dogDocument],
       getDocument = (\<lambda>videoId.
          if videoId = ''v1'' then Inr catDocument
          else if videoId = ''v2'' then Inr dogDocument
          else Inl (BackendError ''document not found'')),
       updateDocument = (\<lambda>videoId patch. Inr ()),
       getFileView = (\<lambda>bucket fileId.
          if bucket = ''thumbnails'' \<and> fileId = Str ''t1'' then Inr ''https://cdn.example/t1''
          else if bucket = ''videos'' \<and> fileId = Str ''f1'' then Inr ''https://cdn.example/f1''
          else Inl (BackendError ''file not found'')),
       videosBucketId = ''videos'',
       thumbnailsBucketId = ''thumbnails'' \<rparr>"

definition failing_backend :: backend where
  "failing_backend =
     \<lparr> listDocuments = Inl (BackendError ''unreachable''),
       getDocument = (\<lambda>videoId. Inl (BackendError ''unreachable'')),
       updateDocument = (\<lambda>videoId patch. Inl (BackendError ''unreachable'')),
       getFileView = (\<lambda>bucket fileId. Inl (BackendError ''unreachable'')),
       videosBucketId = ''videos'',
       thumbnailsBucketId = ''thumbnails'' \<rparr>"

definition ten_backend :: backend where
  "ten_backend = example_backend \<lparr> listDocuments := Inr (replicate 10 dogDocument) \<rparr>"



definition keyed :: "attribute \<Rightarrow> document" where
  "keyed a = emptyDocument (''key'' := Str (key a))"

definition provisioned_backend :: schema_backend where
  "provisioned_backend =
     \<lparr> getCollection = (\<lambda>collectionId.
          if collectionId = ''videos'' then Inr (map keyed videoRequiredAttributes)
          else if collectionId = ''config'' then Inr (map keyed siteConfigRequiredAttributes)
          else if collectionId = ''users'' then Inr (map keyed userRequiredAttributes)
          else if collectionId = ''sessions'' then Inr (map keyed sessionRequiredAttributes)
          else Inl (BackendError ''collection not found'')),
       createAttribute = (\<lambda>call. Inl (BackendError ''attribute already exists'')),
       videoCollectionId = ''videos'',
       siteConfigCollectionId = ''config'',
       userCollectionId = ''users'',
       sessionCollectionId = ''sessions'' \<rparr>"

section \<open>The duration round trip\<close>

text \<open>Decimal digits and what \<^verbatim>\<open>Number\<close> reads back from them.\<close>

lemma digit_cases:
  "d < 10 \<Longrightarrow> d = 0 \<or> d = 1 \<or> d = 2 \<or> d = 3 \<or> d = 4 \<or> d = 5 \<or> d = 6 \<or> d = 7 \<or> d = 8 \<or> d = (9::nat)"
  by arith

lemma digitChar_props:
  assumes "d < 10"
  shows "isDigit (digitChar d)" and "\<not> isSpace (digitChar d)" and "digitVal (digitChar d) = d"
    and "digitChar d \<notin> set ''+-:xXoObBI''"
  using digit_cases [OF assms]
  by (auto simp: digitChar_def isDigit_def isSpace_def digitVal_def)

lemma two_digits:
  assumes "n < 100"
  shows "padStart2 (digits n) = [digitChar (n div 10), digitChar (n mod 10)]"
proof (cases "n < 10")
  case True
  then show ?thesis
    by (simp add: digits.simps [of n] padStart2_def digitChar_def)
next
  case False
  with assms have "n div 10 < 10" by simp
  then have "digits (n div 10) = [digitChar (n div 10)]"
    by (simp add: digits.simps [of "n div 10"])
  with False show ?thesis
    by (simp add: digits.simps [of n] padStart2_def)
qed

lemma stringToNumber_two:
  assumes "a < 10" and "b < 10"
  shows "stringToNumber [digitChar a, digitChar b] = Fin (of_nat (10 * a + b))"
proof -
  note pa = digitChar_props [OF assms(1)] and pb = digitChar_props [OF assms(2)]
  have t: "trim [digitChar a, digitChar b] = [digitChar a, digitChar b]"
    using pa(2) pb(2) by (simp add: trim_def)
  have nd: "nonDecimalLiteral [digitChar a, digitChar b] = None"
    using pb(4) by (auto simp: nonDecimalLiteral_def Let_def)
  have u: "strUnsignedDecimalLiteral [digitChar a, digitChar b]
             = Some (Fin (of_nat (10 * a + b)), [])"
    using pa pb by (simp add: strUnsignedDecimalLiteral_def digitsValue_def)
  have d: "strDecimalLiteral [digitChar a, digitChar b] = Some (Fin (of_nat (10 * a + b)), [])"
    using pa(4) u by (simp add: strDecimalLiteral_def)
  show ?thesis
    by (simp add: stringToNumber_def t nd d)
qed


lemma stringToNumber_padded:
  assumes "n < 100"
  shows "stringToNumber (padStart2 (digits n)) = Fin (of_nat n)"
proof -
  from assms have "n div 10 < 10" and "n mod 10 < 10" by simp_all
  then have "stringToNumber [digitChar (n div 10), digitChar (n mod 10)]
               = Fin (of_nat (10 * (n div 10) + n mod 10))"
    by (rule stringToNumber_two)
  then show ?thesis by (simp add: two_digits [OF assms])
qed

lemma split_colon_no_colon:
  "CHR '':'' \<notin> set s \<Longrightarrow> split_colon (s @ CHR '':'' # t) = s # split_colon t"
  by (induction s) auto

lemma split_colon_last:
  "CHR '':'' \<notin> set s \<Longrightarrow> split_colon s = [s]"
  by (induction s) auto

lemma padded_no_colon:
  assumes "n < 100"
  shows "CHR '':'' \<notin> set (padStart2 (digits n))"
proof -
  from assms have "n div 10 < 10" and "n mod 10 < 10" by simp_all
  from digitChar_props(4) [OF this(1)] digitChar_props(4) [OF this(2)]
  show ?thesis by (auto simp: two_digits [OF assms])
qed

lemma numberToString_nat:
  "n < 10 ^ 21 \<Longrightarrow> numberToString rt (Fin (of_nat n)) = digits n"
proof -
  assume "n < 10 ^ 21"
  then have "(of_nat n :: rat) < of_nat (10 ^ 21)" by (simp only: of_nat_less_iff)
  then show ?thesis by (simp add: numberToString_def)
qed

lemma floor_nat_60: "\<lfloor>(of_nat n :: rat) / 60\<rfloor> = int (n div 60)"
proof -
  have "\<lfloor>(of_nat n :: rat) / 60\<rfloor> = \<lfloor>(of_int (int n) :: rat) / of_int 60\<rfloor>" by simp
  also have "\<dots> = int n div 60" by (rule floor_divide_of_int_eq)
  also have "\<dots> = int (n div 60)" by (simp add: zdiv_int)
  finally show ?thesis .
qed

lemma floor_div_nat: "floor_div (Fin (of_nat n)) 60 = Fin (of_nat (n div 60))"
  by (simp add: floor_nat_60)

lemma num_rem_nat: "num_rem (Fin (of_nat n)) 60 = Fin (of_nat (n mod 60))"
proof -
  have "(of_nat n :: rat) = of_nat (60 * (n div 60) + n mod 60)" by simp
  then have "(of_nat n :: rat) - 60 * of_nat (n div 60) = of_nat (n mod 60)"
    by (simp only: of_nat_add of_nat_mult)
  then show ?thesis by (simp add: trunc_def floor_nat_60)
qed


lemma formatDuration_short:
  assumes "n < 3600"
  shows "formatDuration rt (Fin (of_nat n))
           = padStart2 (digits (n div 60)) @ '':'' @ padStart2 (digits (n mod 60))"
proof -
  from assms have "n div 60 < 60" by simp
  then have "(of_nat (n div 60) :: rat) < of_nat 60" by (simp only: of_nat_less_iff)
  then have l: "num_less (Fin (of_nat (n div 60))) 60" by simp
  have a: "numberToString rt (Fin (of_nat (n div 60))) = digits (n div 60)"
    by (rule numberToString_nat) (use \<open>n div 60 < 60\<close> in simp)
  have b: "numberToString rt (Fin (of_nat (n mod 60))) = digits (n mod 60)"
    by (rule numberToString_nat) simp
  show ?thesis
    by (simp add: formatDuration_def Let_def floor_div_nat num_rem_nat l a b del: num_less.simps floor_div.simps num_rem.simps)
qed

lemma formatDuration_long:
  assumes "3600 \<le> n" and "n < 86400"
  shows "formatDuration rt (Fin (of_nat n))
           = padStart2 (digits (n div 60 div 60)) @ '':'' @ padStart2 (digits (n div 60 mod 60))
             @ '':'' @ padStart2 (digits (n mod 60))"
proof -
  from assms have "60 \<le> n div 60" by simp
  then have "\<not> (of_nat (n div 60) :: rat) < of_nat 60" by (simp only: of_nat_less_iff not_less of_nat_le_iff)
  then have l: "\<not> num_less (Fin (of_nat (n div 60))) 60" by simp
  have a: "numberToString rt (Fin (of_nat (n div 60 div 60))) = digits (n div 60 div 60)"
    by (rule numberToString_nat) (use assms in simp)
  have b: "numberToString rt (Fin (of_nat (n div 60 mod 60))) = digits (n div 60 mod 60)"
    by (rule numberToString_nat) simp
  have c: "numberToString rt (Fin (of_nat (n mod 60))) = digits (n mod 60)"
    by (rule numberToString_nat) simp
  show ?thesis
    by (simp add: formatDuration_def Let_def floor_div_nat num_rem_nat l a b c del: num_less.simps floor_div.simps num_rem.simps)
qed


lemma parse_two_parts:
  assumes "a < 100" and "b < 100"
  shows "getDurationInSeconds (padStart2 (digits a) @ '':'' @ padStart2 (digits b))
           = Fin (of_nat (a * 60 + b))"
proof -
  have "split_colon (padStart2 (digits a) @ CHR '':'' # padStart2 (digits b))
          = [padStart2 (digits a), padStart2 (digits b)]"
    by (simp add: split_colon_no_colon split_colon_last padded_no_colon assms)
  then show ?thesis
    by (simp add: getDurationInSeconds_def stringToNumber_padded assms)
qed

lemma parse_three_parts:
  assumes "h < 100" and "a < 100" and "b < 100"
  shows "getDurationInSeconds
           (padStart2 (digits h) @ '':'' @ padStart2 (digits a) @ '':'' @ padStart2 (digits b))
           = Fin (of_nat (h * 3600 + a * 60 + b))"
proof -
  have "split_colon (padStart2 (digits h) @ CHR '':'' # padStart2 (digits a)
                       @ CHR '':'' # padStart2 (digits b))
          = [padStart2 (digits h), padStart2 (digits a), padStart2 (digits b)]"
    by (simp add: split_colon_no_colon split_colon_last padded_no_colon assms)
  then show ?thesis
    by (simp add: getDurationInSeconds_def stringToNumber_padded assms)
qed



lemma duration_normalizeVideo:
  "duration (normalizeVideo rt (video(''duration'' := Num n)))
     = (if num_truthy n then formatDuration rt n else ''00:00'')"
  by (simp add: normalizeVideo_def)

lemma hm_recompose: "m div 60 * 3600 + m mod 60 * 60 = m * (60::nat)"
  using div_mult_mod_eq [of m 60] by arith

lemma hms_recompose: "n div 60 div 60 * 3600 + n div 60 mod 60 * 60 + n mod 60 = (n::nat)"
  using hm_recompose [of "n div 60"] div_mult_mod_eq [of n 60] by (simp only:)

lemma round_trip_nat:
  assumes "n < 86400"
  shows "getDurationInSeconds
           (duration (normalizeVideo rt (video(''duration'' := Num (Fin (of_nat n))))))
         = Fin (of_nat n)"
proof (cases "n = 0")
  case True
  have "getDurationInSeconds (padStart2 (digits 0) @ '':'' @ padStart2 (digits 0)) = Fin (of_nat (0 * 60 + 0))"
    by (rule parse_two_parts) simp_all
  then have "getDurationInSeconds ''00:00'' = Fin 0"
    by (simp add: digits.simps [of 0] padStart2_def digitChar_def)
  with True show ?thesis by (simp add: duration_normalizeVideo)
next
  case False
  then have d: "duration (normalizeVideo rt (video(''duration'' := Num (Fin (of_nat n)))))
                 = formatDuration rt (Fin (of_nat n))"
    by (simp add: duration_normalizeVideo)
  show ?thesis
  proof (cases "n < 3600")
    case True
    then have "n div 60 < 100" and "n mod 60 < 100" by simp_all
    then have "getDurationInSeconds (padStart2 (digits (n div 60)) @ '':'' @ padStart2 (digits (n mod 60)))
                 = Fin (of_nat (n div 60 * 60 + n mod 60))"
      by (rule parse_two_parts)
    then show ?thesis
      by (simp add: d formatDuration_short [OF True])
  next
    case long: False
    then have ge: "3600 \<le> n" by simp
    from assms have "n div 60 div 60 < 100" and "n div 60 mod 60 < 100" and "n mod 60 < 100"
      by simp_all
    then have "getDurationInSeconds
                 (padStart2 (digits (n div 60 div 60)) @ '':'' @ padStart2 (digits (n div 60 mod 60))
                    @ '':'' @ padStart2 (digits (n mod 60)))
               = Fin (of_nat (n div 60 div 60 * 3600 + n div 60 mod 60 * 60 + n mod 60))"
      by (rule parse_three_parts)
    then show ?thesis
      by (simp only: d formatDuration_long [OF ge assms] hms_recompose)
  qed
qed

text \<open>
  Claim C1. For every integer number of seconds \<open>S\<close> with \<open>0 \<le> S < 86400\<close>, the duration
  string that \<^verbatim>\<open>normalizeVideo\<close> renders for a document whose duration is \<open>S\<close> (MM:SS
  below an hour, HH:MM:SS from an hour on, each part padded to two digits) is read back by
  \<^verbatim>\<open>getDurationInSeconds\<close> as \<open>S\<close> again.
\<close>

theorem duration_round_trip:
  assumes "0 \<le> S" and "S < 86400"
  shows "getDurationInSeconds
           (duration (normalizeVideo rt (video(''duration'' := Num (Fin (of_int S))))))
         = Fin (of_int S)"
proof -
  from assms have "nat S < 86400" by simp
  from round_trip_nat [OF this, of rt video] assms(1) show ?thesis by simp
qed

theorem duration_round_trip_witness:
  "(0::int) \<le> 3725 \<and> (3725::int) < 86400
   \<and> getDurationInSeconds
        (duration (normalizeVideo example_runtime (emptyDocument(''duration'' := Num (Fin 3725)))))
      = Fin 3725"
  using duration_round_trip [of 3725 example_runtime emptyDocument] by simp

section \<open>Normalisation\<close>

text \<open>
  \<^verbatim>\<open>normalizeVideo\<close> reads properties of an object, tests types, applies \<^verbatim>\<open>||\<close>, formats
  numbers and calls \<^verbatim>\<open>parseFloat\<close> on JSON values: none of these throws, so the model is
  a total function into \<open>Video\<close> with no error summand.
\<close>

lemma parseFloat_zero: "parseFloat rt (Str ''0'') = Fin 0"
proof -
  have "parseFloatString ''0'' = Fin 0" by code_simp
  then show ?thesis by (simp add: parseFloat_def)
qed

text \<open>
  Claim C2, as amended. Normalisation is total and gives the documented defaults: a missing
  title becomes \<open>Untitled\<close>, a missing description the empty string, missing or non-numeric
  views 0, a missing or non-numeric duration \<open>00:00\<close>. A missing price (absent, \<^verbatim>\<open>null\<close>,
  \<^verbatim>\<open>false\<close> or the empty string) becomes 0 and a numeric price is kept as it is; any other
  price is not coerced to 0 but handed to \<^verbatim>\<open>parseFloat\<close>, so a string holding a decimal
  literal becomes that number.
\<close>

theorem normalizeVideo_defaults:
  "(\<not> truthy (video ''title'') \<longrightarrow> title (normalizeVideo rt video) = Str ''Untitled'')
   \<and> (\<not> truthy (video ''description'') \<longrightarrow> description (normalizeVideo rt video) = Str [])
   \<and> (video ''price'' \<in> {Undefined, Null, Bool False, Str []}
        \<longrightarrow> price (normalizeVideo rt video) = Fin 0)
   \<and> (\<forall>p. video ''price'' = Num p \<longrightarrow> price (normalizeVideo rt video) = p)
   \<and> ((\<forall>p. video ''price'' \<noteq> Num p) \<and> truthy (video ''price'')
        \<longrightarrow> price (normalizeVideo rt video) = parseFloat rt (video ''price''))
   \<and> ((\<forall>n. video ''views'' \<noteq> Num n) \<longrightarrow> views (normalizeVideo rt video) = Fin 0)
   \<and> ((\<forall>n. video ''duration'' \<noteq> Num n) \<or> \<not> truthy (video ''duration'')
        \<longrightarrow> duration (normalizeVideo rt video) = ''00:00'')"
proof (intro conjI)
  show "\<not> truthy (video ''title'') \<longrightarrow> title (normalizeVideo rt video) = Str ''Untitled''"
    by (simp add: normalizeVideo_def js_or_def)
  show "\<not> truthy (video ''description'') \<longrightarrow> description (normalizeVideo rt video) = Str []"
    by (simp add: normalizeVideo_def js_or_def)
  show "video ''price'' \<in> {Undefined, Null, Bool False, Str []}
          \<longrightarrow> price (normalizeVideo rt video) = Fin 0"
    by (auto simp: normalizeVideo_def js_or_def parseFloat_zero)
  show "\<forall>p. video ''price'' = Num p \<longrightarrow> price (normalizeVideo rt video) = p"
    by (simp add: normalizeVideo_def)
  show "(\<forall>p. video ''price'' \<noteq> Num p) \<and> truthy (video ''price'')
          \<longrightarrow> price (normalizeVideo rt video) = parseFloat rt (video ''price'')"
    by (cases "video ''price''") (simp_all add: normalizeVideo_def js_or_def)
  show "(\<forall>n. video ''views'' \<noteq> Num n) \<longrightarrow> views (normalizeVideo rt video) = Fin 0"
    by (cases "video ''views''") (simp_all add: normalizeVideo_def)
  show "(\<forall>n. video ''duration'' \<noteq> Num n) \<or> \<not> truthy (video ''duration'')
          \<longrightarrow> duration (normalizeVideo rt video) = ''00:00''"
    by (cases "video ''duration''") (simp_all add: normalizeVideo_def)
qed

theorem normalizeVideo_defaults_witness:
  "title (normalizeVideo example_runtime emptyDocument) = Str ''Untitled''
   \<and> description (normalizeVideo example_runtime emptyDocument) = Str []
   \<and> price (normalizeVideo example_runtime emptyDocument) = Fin 0
   \<and> views (normalizeVideo example_runtime emptyDocument) = Fin 0
   \<and> duration (normalizeVideo example_runtime emptyDocument) = ''00:00''
   \<and> price (normalizeVideo example_runtime catDocument) = Fin 30
   \<and> price (normalizeVideo example_runtime (emptyDocument(''price'' := Str ''12.5'')))
        = parseFloat example_runtime (Str ''12.5'')
   \<and> duration (normalizeVideo example_runtime (emptyDocument(''duration'' := Str ''90''))) = ''00:00''"
  using normalizeVideo_defaults [where video = emptyDocument and rt = example_runtime]
    normalizeVideo_defaults [where video = catDocument and rt = example_runtime]
    normalizeVideo_defaults [where video = "emptyDocument(''price'' := Str ''12.5'')" and rt = example_runtime]
    normalizeVideo_defaults [where video = "emptyDocument(''duration'' := Str ''90'')" and rt = example_runtime]
  by (simp add: emptyDocument_def catDocument_def)

text \<open>The claim as it was stated, a non-numeric price is coerced to 0, fails on the string
  \<open>12.5\<close>, which is parsed; a string with no numeric prefix gives \<open>NaN\<close>.\<close>

theorem normalizeVideo_price_counterexample:
  "price (normalizeVideo example_runtime (emptyDocument(''price'' := Str ''12.5''))) = Fin (25 / 2)
   \<and> price (normalizeVideo example_runtime (emptyDocument(''price'' := Str ''12.5''))) \<noteq> Fin 0
   \<and> price (normalizeVideo example_runtime (emptyDocument(''price'' := Str ''abc''))) = NaN"
  by code_simp

lemma numberToString_clock: "numberToString (rt\<lparr>now_iso := t\<rparr>) n = numberToString rt n"
  by (simp add: numberToString_def split: number.splits)

lemma jsToString_clock: "jsToString (rt\<lparr>now_iso := t\<rparr>) v = jsToString rt v"
proof (induction v)
  case (Arr xs)
  then have "map (\<lambda>x. if x = Undefined \<or> x = Null then [] else jsToString (rt\<lparr>now_iso := t\<rparr>) x) xs
               = map (\<lambda>x. if x = Undefined \<or> x = Null then [] else jsToString rt x) xs"
    by (intro map_cong) simp_all
  then show ?case by (simp only: jsToString.simps)
qed (simp_all add: numberToString_clock)

lemma formatDuration_clock: "formatDuration (rt\<lparr>now_iso := t\<rparr>) n = formatDuration rt n"
  by (simp add: formatDuration_def Let_def numberToString_clock)

lemma parseFloat_clock: "parseFloat (rt\<lparr>now_iso := t\<rparr>) v = parseFloat rt v"
  by (simp add: parseFloat_def jsToString_clock)

text \<open>
  Claim C3, as amended. Normalisation is deterministic up to the clock: two runs on the same
  raw record give identical views whenever the record has a \<^verbatim>\<open>created_at\<close> value, and in
  general they agree on every field but \<open>createdAt\<close>, which without a \<^verbatim>\<open>created_at\<close> is
  the time of the run.
\<close>

theorem normalizeVideo_deterministic_up_to_clock:
  "(truthy (video ''created_at'')
      \<longrightarrow> normalizeVideo (rt\<lparr>now_iso := t1\<rparr>) video = normalizeVideo (rt\<lparr>now_iso := t2\<rparr>) video)
   \<and> normalizeVideo (rt\<lparr>now_iso := t1\<rparr>) video
       = (normalizeVideo (rt\<lparr>now_iso := t2\<rparr>) video)
           \<lparr>createdAt := js_or (video ''created_at'') (Str t1)\<rparr>"
  by (simp add: normalizeVideo_def formatDuration_clock parseFloat_clock js_or_def
        split: jsval.splits)

theorem normalizeVideo_deterministic_up_to_clock_witness:
  "truthy (catDocument ''created_at'')
   \<and> normalizeVideo (example_runtime\<lparr>now_iso := ''2024-05-01T10:00:00.000Z''\<rparr>) catDocument
       = normalizeVideo (example_runtime\<lparr>now_iso := ''2024-05-01T10:00:00.001Z''\<rparr>) catDocument"
  using normalizeVideo_deterministic_up_to_clock
          [where video = catDocument and rt = example_runtime
             and ?t1.0 = "''2024-05-01T10:00:00.000Z''" and ?t2.0 = "''2024-05-01T10:00:00.001Z''"]
  by (simp add: catDocument_def)

text \<open>On a record with no \<^verbatim>\<open>created_at\<close>, two runs a millisecond apart differ.\<close>

theorem normalizeVideo_clock_counterexample:
  "createdAt (normalizeVideo (example_runtime\<lparr>now_iso := ''2024-05-01T10:00:00.000Z''\<rparr>) emptyDocument)
     \<noteq> createdAt (normalizeVideo (example_runtime\<lparr>now_iso := ''2024-05-01T10:00:00.001Z''\<rparr>) emptyDocument)"
  by (simp add: normalizeVideo_def emptyDocument_def js_or_def)

text \<open>
  Claim C10. Normalisation sets both \<open>videoFileId\<close> and \<open>video_id\<close> from the raw
  \<^verbatim>\<open>video_id\<close> field and both \<open>thumbnailFileId\<close> and \<open>thumbnail_id\<close> from the raw
  \<^verbatim>\<open>thumbnail_id\<close> field (\<^verbatim>\<open>null\<close> when the field is missing). Raw fields named
  \<^verbatim>\<open>videoFileId\<close> or \<^verbatim>\<open>thumbnailFileId\<close> have no influence on the result, so the two
  later lookups \<^verbatim>\<open>thumbnailFileId || thumbnail_id\<close> and \<^verbatim>\<open>video_id || videoFileId\<close> read
  one raw field each.
\<close>

theorem normalizeVideo_aliases:
  "videoFileId (normalizeVideo rt video) = js_or (video ''video_id'') Null
   \<and> video_id (normalizeVideo rt video) = js_or (video ''video_id'') Null
   \<and> thumbnailFileId (normalizeVideo rt video) = js_or (video ''thumbnail_id'') Null
   \<and> thumbnail_id (normalizeVideo rt video) = js_or (video ''thumbnail_id'') Null
   \<and> normalizeVideo rt (video(''videoFileId'' := x, ''thumbnailFileId'' := y)) = normalizeVideo rt video
   \<and> js_or (thumbnailFileId (normalizeVideo rt video)) (thumbnail_id (normalizeVideo rt video))
       = js_or (video ''thumbnail_id'') Null
   \<and> js_or (video_id (normalizeVideo rt video)) (videoFileId (normalizeVideo rt video))
       = js_or (video ''video_id'') Null"
  by (simp add: normalizeVideo_def js_or_def)

section \<open>Which errors reach the caller\<close>

lemma getVideo_not_error: "getVideo rt be videoId \<noteq> Inl e"
  by (simp add: getVideo_def split: sum.splits)

lemma getVideoFileUrl_not_error: "getVideoFileUrl rt be videoId \<noteq> Inl e"
  by (simp add: getVideoFileUrl_def split: sum.splits)

lemma getVideo_missing:
  "getDocument be videoId = Inl e \<Longrightarrow> getVideo rt be videoId = Inr None"
  by (simp add: getVideo_def getVideo_try_def)

text \<open>
  Claim C4. An error reaches the caller exactly from the full-catalogue fetch: a failure of
  the document listing is thrown again by \<^verbatim>\<open>getAllVideos\<close> and hence by
  \<^verbatim>\<open>getVideosWithPagination\<close>, while schema provisioning, \<^verbatim>\<open>getVideo\<close>,
  \<^verbatim>\<open>incrementViews\<close> and \<^verbatim>\<open>getVideoFileUrl\<close> never throw: on a backend failure they
  return nothing created, \<^verbatim>\<open>null\<close>, \<^verbatim>\<open>void\<close> and \<^verbatim>\<open>null\<close>.
\<close>

theorem error_propagation:
  "(listDocuments be = Inl e
      \<longrightarrow> getAllVideos rt be sortOption searchQuery = Inl e
          \<and> getVideosWithPagination rt be page perPage sortOption searchQuery = Inl e)
   \<and> (\<forall>e'. initializeSchema sb \<noteq> Inl e')
   \<and> (\<forall>e'. getVideo rt be videoId \<noteq> Inl e')
   \<and> (\<forall>e'. incrementViews rt be videoId \<noteq> Inl e')
   \<and> (\<forall>e'. getVideoFileUrl rt be videoId \<noteq> Inl e')
   \<and> (getDocument be videoId = Inl e
        \<longrightarrow> getVideo rt be videoId = Inr None
            \<and> incrementViews rt be videoId = Inr ()
            \<and> getVideoFileUrl rt be videoId = Inr None)
   \<and> (getCollection sb (videoCollectionId sb) = Inl e
        \<longrightarrow> ensureVideoCollectionAttributes sb = [])"
proof (intro conjI allI impI)
  assume l: "listDocuments be = Inl e"
  then show a: "getAllVideos rt be sortOption searchQuery = Inl e"
    by (simp add: getAllVideos_def getAllVideos_try_def)
  then show "getVideosWithPagination rt be page perPage sortOption searchQuery = Inl e"
    by (simp add: getVideosWithPagination_def)
next
  fix e' show "initializeSchema sb \<noteq> Inl e'"
    by (simp add: initializeSchema_def initializeSchema_try_def)
next
  fix e' show "getVideo rt be videoId \<noteq> Inl e'" by (rule getVideo_not_error)
next
  fix e' show "incrementViews rt be videoId \<noteq> Inl e'"
    by (simp add: incrementViews_def split: sum.splits)
next
  fix e' show "getVideoFileUrl rt be videoId \<noteq> Inl e'" by (rule getVideoFileUrl_not_error)
next
  assume d: "getDocument be videoId = Inl e"
  then show g: "getVideo rt be videoId = Inr None" by (rule getVideo_missing)
  show "incrementViews rt be videoId = Inr ()"
    by (simp add: incrementViews_def split: sum.splits)
  from g show "getVideoFileUrl rt be videoId = Inr None"
    by (simp add: getVideoFileUrl_def getVideoFileUrl_try_def)
next
  assume "getCollection sb (videoCollectionId sb) = Inl e"
  then show "ensureVideoCollectionAttributes sb = []"
    by (simp add: ensureVideoCollectionAttributes_def ensureAttributes_try_def)
qed

theorem error_propagation_witness:
  "listDocuments failing_backend = Inl (BackendError ''unreachable'')
   \<and> getDocument failing_backend ''v1'' = Inl (BackendError ''unreachable'')
   \<and> getAllVideos example_runtime failing_backend NEWEST [] = Inl (BackendError ''unreachable'')
   \<and> getVideosWithPagination example_runtime failing_backend 1 12 NEWEST []
        = Inl (BackendError ''unreachable'')
   \<and> getVideo example_runtime failing_backend ''v1'' = Inr None
   \<and> incrementViews example_runtime failing_backend ''v1'' = Inr ()
   \<and> getVideoFileUrl example_runtime failing_backend ''v1'' = Inr None"
  using error_propagation
          [where be = failing_backend and e = "BackendError ''unreachable''"
             and rt = example_runtime and sortOption = NEWEST and searchQuery = "[]"
             and page = 1 and perPage = 12 and videoId = "''v1''"]
  by (simp add: failing_backend_def)

section \<open>The URL of the video file\<close>

text \<open>What holds of \<^verbatim>\<open>getVideoFileUrl\<close>: it returns \<^verbatim>\<open>null\<close>, never an error, when the
  record is missing, when the video has no file reference, and when the URL cannot be
  resolved.\<close>

lemma getVideoFileUrl_absent:
  "(getDocument be videoId = Inl e \<longrightarrow> getVideoFileUrl rt be videoId = Inr None)
   \<and> (\<forall>video. getVideo rt be videoId = Inr (Some video)
           \<and> \<not> truthy (js_or (video_id video) (videoFileId video))
         \<longrightarrow> getVideoFileUrl rt be videoId = Inr None)
   \<and> (\<forall>video e'. getVideo rt be videoId = Inr (Some video)
           \<and> getFileView be (videosBucketId be) (js_or (video_id video) (videoFileId video)) = Inl e'
         \<longrightarrow> getVideoFileUrl rt be videoId = Inr None)
   \<and> (\<forall>e'. getVideoFileUrl rt be videoId \<noteq> Inl e')"
proof (intro conjI allI impI)
  assume "getDocument be videoId = Inl e"
  then have "getVideo rt be videoId = Inr None" by (rule getVideo_missing)
  then show "getVideoFileUrl rt be videoId = Inr None"
    by (simp add: getVideoFileUrl_def getVideoFileUrl_try_def)
next
  fix video
  assume "getVideo rt be videoId = Inr (Some video)
            \<and> \<not> truthy (js_or (video_id video) (videoFileId video))"
  then show "getVideoFileUrl rt be videoId = Inr None"
    by (simp add: getVideoFileUrl_def getVideoFileUrl_try_def)
next
  fix video e'
  assume "getVideo rt be videoId = Inr (Some video)
            \<and> getFileView be (videosBucketId be) (js_or (video_id video) (videoFileId video)) = Inl e'"
  then show "getVideoFileUrl rt be videoId = Inr None"
    by (simp add: getVideoFileUrl_def getVideoFileUrl_try_def Let_def)
next
  fix e' show "getVideoFileUrl rt be videoId \<noteq> Inl e'" by (rule getVideoFileUrl_not_error)
qed


section \<open>Pagination\<close>

lemma length_insert_by: "length (insert_by cmp x xs) = Suc (length xs)"
  by (induction xs) simp_all

lemma length_js_sort: "length (js_sort cmp xs) = length xs"
  by (induction xs) (simp_all add: length_insert_by)

lemma js_slice_window:
  assumes "0 \<le> start" and "0 \<le> width"
  shows "js_slice xs start (start + width) = take (nat width) (drop (nat start) xs)"
proof (cases "start \<le> int (length xs)")
  case True
  with assms have "nat (min (start + width) (int (length xs)) - start)
                     = min (nat width) (length xs - nat start)"
    by (simp add: min_def) linarith
  with True assms show ?thesis
    by (simp add: js_slice_def Let_def min_absorb1 take_take [symmetric] del: take_take)
next
  case False
  with assms show ?thesis
    by (simp add: js_slice_def Let_def min_def)
qed

lemma ceil_div_positive:
  "1 \<le> d \<Longrightarrow> ceil_div n d = Fin (of_int \<lceil>(of_nat n :: rat) / of_int d\<rceil>)"
  by (simp add: ceil_div_def)

lemma getAllVideos_unfiltered:
  assumes "listDocuments be = Inr documents" and "trim searchQuery = []"
  shows "getAllVideos rt be sortOption searchQuery
           = Inr (js_sort (compareVideos rt sortOption)
                    (map (resolveThumbnail be) (map (normalizeVideo rt) documents)))"
  using assms by (simp add: getAllVideos_def getAllVideos_try_def)

text \<open>
  Claim C5. For every sorted and filtered list of \<open>n\<close> videos that \<^verbatim>\<open>getAllVideos\<close> returns
  and all integers \<open>page \<ge> 1\<close> and \<open>perPage \<ge> 1\<close>, \<^verbatim>\<open>getVideosWithPagination\<close> returns
  \<open>totalPages = \<lceil>n / perPage\<rceil>\<close> and exactly the videos of that list at the indices from
  \<open>(page - 1) * perPage\<close> up to but excluding \<open>page * perPage\<close>; when
  \<open>(page - 1) * perPage \<ge> n\<close> the page is empty, and no error is raised.
\<close>

theorem pagination_window:
  assumes "getAllVideos rt be sortOption searchQuery = Inr allVideos"
    and "1 \<le> page" and "1 \<le> perPage"
  shows "\<exists>pageVideos.
           getVideosWithPagination rt be page perPage sortOption searchQuery
             = Inr \<lparr> videos = pageVideos,
                     totalPages = Fin (of_int \<lceil>(of_nat (length allVideos) :: rat) / of_int perPage\<rceil>) \<rparr>
           \<and> length pageVideos
               = min (nat perPage) (length allVideos - nat ((page - 1) * perPage))
           \<and> (\<forall>i<length pageVideos.
                 pageVideos ! i = allVideos ! (nat ((page - 1) * perPage) + i))
           \<and> (int (length allVideos) \<le> (page - 1) * perPage \<longrightarrow> pageVideos = [])"
proof -
  let ?start = "(page - 1) * perPage"
  let ?w = "take (nat perPage) (drop (nat ?start) allVideos)"
  from assms have s: "0 \<le> ?start" and c: "0 \<le> perPage" by simp_all
  have "getVideosWithPagination rt be page perPage sortOption searchQuery
          = Inr \<lparr> videos = ?w,
                  totalPages = Fin (of_int \<lceil>(of_nat (length allVideos) :: rat) / of_int perPage\<rceil>) \<rparr>"
    using assms by (simp add: getVideosWithPagination_def Let_def js_slice_window [OF s c] ceil_div_positive)
  moreover have "length ?w = min (nat perPage) (length allVideos - nat ?start)"
    by simp
  moreover have "\<forall>i<length ?w. ?w ! i = allVideos ! (nat ?start + i)"
  proof (intro allI impI)
    fix i assume "i < length ?w"
    then have "i < length allVideos - nat ?start" and "i < nat perPage" by simp_all
    then have "nat ?start \<le> length allVideos" and "i < nat perPage" by linarith+
    then show "?w ! i = allVideos ! (nat ?start + i)" by (simp add: nth_drop)
  qed
  moreover have "int (length allVideos) \<le> ?start \<longrightarrow> ?w = []"
    using s by auto
  ultimately show ?thesis by blast
qed

theorem pagination_window_witness:
  "(\<exists>pageVideos.
      getVideosWithPagination example_runtime ten_backend 3 4 NEWEST []
        = Inr \<lparr> videos = pageVideos, totalPages = Fin 3 \<rparr>
      \<and> length pageVideos = 2)
   \<and> (\<exists>pageVideos.
      getVideosWithPagination example_runtime ten_backend 5 4 NEWEST []
        = Inr \<lparr> videos = pageVideos, totalPages = Fin 3 \<rparr>
      \<and> pageVideos = [])"
proof -
  let ?all = "js_sort (compareVideos example_runtime NEWEST)
                (map (resolveThumbnail ten_backend)
                   (map (normalizeVideo example_runtime) (replicate 10 dogDocument)))"
  have g: "getAllVideos example_runtime ten_backend NEWEST [] = Inr ?all"
    by (rule getAllVideos_unfiltered) (simp_all add: ten_backend_def trim_def)
  have n: "length ?all = 10" by (simp add: length_js_sort)
  have q: "\<lceil>(10::rat) / 4\<rceil> = 3" by (rule ceiling_unique) simp_all
  from pagination_window [OF g, of 3 4] n q
  have a: "\<exists>pageVideos.
      getVideosWithPagination example_runtime ten_backend 3 4 NEWEST []
        = Inr \<lparr> videos = pageVideos, totalPages = Fin 3 \<rparr>
      \<and> length pageVideos = 2"
    by auto
  from pagination_window [OF g, of 5 4] n q
  have b: "\<exists>pageVideos.
      getVideosWithPagination example_runtime ten_backend 5 4 NEWEST []
        = Inr \<lparr> videos = pageVideos, totalPages = Fin 3 \<rparr>
      \<and> pageVideos = []"
    by auto
  from a b show ?thesis by blast
qed

section \<open>Schema reconciliation\<close>

lemma createMissing_all_present:
  "\<forall>a\<in>set requiredAttributes. \<exists>x\<in>set existingAttributes. x ''key'' = Str (key a)
     \<Longrightarrow> createMissing sb build existingAttributes requiredAttributes = (Inr (), [])"
  by (induction requiredAttributes) (auto simp: list_ex_iff)

lemma ensureAttributes_try_all_present:
  assumes "getCollection sb c = Inr existingAttributes"
    and "\<forall>a\<in>set requiredAttributes. \<exists>x\<in>set existingAttributes. x ''key'' = Str (key a)"
  shows "ensureAttributes_try sb c build requiredAttributes = (Inr (), [])"
  using assms by (simp add: ensureAttributes_try_def createMissing_all_present)

lemma keyed_present:
  "\<forall>a\<in>set requiredAttributes. \<exists>x\<in>set (map keyed requiredAttributes). x ''key'' = Str (key a)"
  by (auto simp: keyed_def emptyDocument_def)

text \<open>
  Claim C6. Reconciliation is idempotent: whenever every declared key of a collection is
  already among the attributes the backend reports for it, the reconciliation of that
  collection issues no create call. Create calls being the only writes of the schema
  manager, the existing attributes are left as they are.
\<close>

theorem reconciliation_idempotent:
  "(getCollection sb (videoCollectionId sb) = Inr existingAttributes
      \<and> (\<forall>a\<in>set videoRequiredAttributes. \<exists>x\<in>set existingAttributes. x ''key'' = Str (key a))
      \<longrightarrow> ensureVideoCollectionAttributes sb = [])
   \<and> (getCollection sb (siteConfigCollectionId sb) = Inr existingAttributes
      \<and> (\<forall>a\<in>set siteConfigRequiredAttributes. \<exists>x\<in>set existingAttributes. x ''key'' = Str (key a))
      \<longrightarrow> ensureSiteConfigCollectionAttributes sb = [])
   \<and> (getCollection sb (userCollectionId sb) = Inr existingAttributes
      \<and> (\<forall>a\<in>set userRequiredAttributes. \<exists>x\<in>set existingAttributes. x ''key'' = Str (key a))
      \<longrightarrow> ensureUserCollectionAttributes sb = [])
   \<and> (getCollection sb (sessionCollectionId sb) = Inr existingAttributes
      \<and> (\<forall>a\<in>set sessionRequiredAttributes. \<exists>x\<in>set existingAttributes. x ''key'' = Str (key a))
      \<longrightarrow> ensureSessionCollectionAttributes sb = [])"
  by (simp add: ensureVideoCollectionAttributes_def ensureSiteConfigCollectionAttributes_def
      ensureUserCollectionAttributes_def ensureSessionCollectionAttributes_def
      ensureAttributes_try_all_present)

theorem reconciliation_idempotent_witness:
  "ensureVideoCollectionAttributes provisioned_backend = []
   \<and> ensureSiteConfigCollectionAttributes provisioned_backend = []
   \<and> ensureUserCollectionAttributes provisioned_backend = []
   \<and> ensureSessionCollectionAttributes provisioned_backend = []
   \<and> initializeSchema provisioned_backend = Inr []"
proof -
  have v: "ensureVideoCollectionAttributes provisioned_backend = []"
    using reconciliation_idempotent
            [where sb = provisioned_backend and existingAttributes = "map keyed videoRequiredAttributes"]
          keyed_present [of videoRequiredAttributes]
    by (simp add: provisioned_backend_def)
  have c: "ensureSiteConfigCollectionAttributes provisioned_backend = []"
    using reconciliation_idempotent
            [where sb = provisioned_backend and existingAttributes = "map keyed siteConfigRequiredAttributes"]
          keyed_present [of siteConfigRequiredAttributes]
    by (simp add: provisioned_backend_def)
  have u: "ensureUserCollectionAttributes provisioned_backend = []"
    using reconciliation_idempotent
            [where sb = provisioned_backend and existingAttributes = "map keyed userRequiredAttributes"]
          keyed_present [of userRequiredAttributes]
    by (simp add: provisioned_backend_def)
  have s: "ensureSessionCollectionAttributes provisioned_backend = []"
    using reconciliation_idempotent
            [where sb = provisioned_backend and existingAttributes = "map keyed sessionRequiredAttributes"]
          keyed_present [of sessionRequiredAttributes]
    by (simp add: provisioned_backend_def)
  from v c u s show ?thesis
    by (simp add: initializeSchema_def initializeSchema_try_def)
qed

section \<open>Thumbnails\<close>

lemma mset_insert_by: "mset (insert_by cmp x xs) = add_mset x (mset xs)"
  by (induction xs) simp_all

lemma mset_js_sort: "mset (js_sort cmp xs) = mset xs"
  by (induction xs) (simp_all add: mset_insert_by)

lemma set_js_sort: "set (js_sort cmp xs) = set xs"
  using mset_js_sort [of cmp xs] by (metis set_mset_mset)

lemma filter_throwing_total:
  "\<forall>x\<in>set xs. \<exists>keep. p x = Inr keep
     \<Longrightarrow> filter_throwing p xs = Inr (filter (\<lambda>x. p x = Inr True) xs)"
  by (induction xs) auto

lemma str_includes_sublist: "str_includes s q \<longleftrightarrow> sublist q s"
  by (induction s) (simp_all add: sublist_Cons_right)

lemma resolveThumbnail_fields:
  "thumbnailFileId (resolveThumbnail be v) = thumbnailFileId v"
  "thumbnail_id (resolveThumbnail be v) = thumbnail_id v"
  by (simp_all add: resolveThumbnail_def Let_def split: sum.splits)

lemma resolveThumbnail_url:
  "thumbnailUrl (resolveThumbnail be v)
     = (if truthy (js_or (thumbnailFileId v) (thumbnail_id v)) then
          (case getFileView be (thumbnailsBucketId be) (js_or (thumbnailFileId v) (thumbnail_id v)) of
             Inr href \<Rightarrow> Str href
           | Inl e \<Rightarrow> Str placeholderUrl)
        else Str placeholderUrl)"
  by (simp add: resolveThumbnail_def Let_def split: sum.splits)

lemma getAllVideos_resolved:
  assumes "getAllVideos rt be sortOption searchQuery = Inr result" and "v \<in> set result"
  shows "\<exists>v0. v = resolveThumbnail be v0"
  using assms
  by (auto simp: getAllVideos_def getAllVideos_try_def set_js_sort split: sum.splits if_splits)

lemma getAllVideos_error_independent:
  "getAllVideos rt (be\<lparr>getFileView := g\<rparr>) sortOption searchQuery = Inl e
     \<longleftrightarrow> getAllVideos rt be sortOption searchQuery = Inl e"
  by (simp add: getAllVideos_def getAllVideos_try_def split: sum.splits)

lemma placeholderUrl_nonempty: "placeholderUrl \<noteq> []"
  by (simp add: placeholderUrl_def)

text \<open>
  Claim C7. Every video returned by \<^verbatim>\<open>getAllVideos\<close> or \<^verbatim>\<open>getVideo\<close> has a non-empty
  \<open>thumbnailUrl\<close>: the resolved URL when a thumbnail reference is present and the backend
  resolves it, the fixed placeholder when the reference is absent or the lookup fails. (A
  URL object of the backend has a non-empty \<^verbatim>\<open>href\<close>, which is the hypothesis.) The
  lookup never raises: \<^verbatim>\<open>getVideo\<close> returns no error, and whether \<^verbatim>\<open>getAllVideos\<close>
  returns one does not depend on the file store.
\<close>

theorem thumbnail_always_set:
  assumes "\<forall>bucket fileId href. getFileView be bucket fileId = Inr href \<longrightarrow> href \<noteq> []"
  shows "(\<forall>result. getAllVideos rt be sortOption searchQuery = Inr result \<longrightarrow>
            (\<forall>v\<in>set result.
               thumbnailUrl v
                 = (if truthy (js_or (thumbnailFileId v) (thumbnail_id v)) then
                      (case getFileView be (thumbnailsBucketId be)
                              (js_or (thumbnailFileId v) (thumbnail_id v)) of
                         Inr href \<Rightarrow> Str href
                       | Inl e \<Rightarrow> Str placeholderUrl)
                    else Str placeholderUrl)
               \<and> (\<exists>url. thumbnailUrl v = Str url \<and> url \<noteq> [])))
       \<and> (\<forall>v. getVideo rt be videoId = Inr (Some v) \<longrightarrow>
               thumbnailUrl v
                 = (if truthy (js_or (thumbnailFileId v) (thumbnail_id v)) then
                      (case getFileView be (thumbnailsBucketId be)
                              (js_or (thumbnailFileId v) (thumbnail_id v)) of
                         Inr href \<Rightarrow> Str href
                       | Inl e \<Rightarrow> Str placeholderUrl)
                    else Str placeholderUrl)
               \<and> (\<exists>url. thumbnailUrl v = Str url \<and> url \<noteq> []))
       \<and> (\<forall>e. getVideo rt be videoId \<noteq> Inl e)
       \<and> (\<forall>g e. getAllVideos rt (be\<lparr>getFileView := g\<rparr>) sortOption searchQuery = Inl e
                  \<longleftrightarrow> getAllVideos rt be sortOption searchQuery = Inl e)"
proof -
  have url: "thumbnailUrl (resolveThumbnail be v0)
               = (if truthy (js_or (thumbnailFileId (resolveThumbnail be v0))
                                   (thumbnail_id (resolveThumbnail be v0))) then
                    (case getFileView be (thumbnailsBucketId be)
                            (js_or (thumbnailFileId (resolveThumbnail be v0))
                                   (thumbnail_id (resolveThumbnail be v0))) of
                       Inr href \<Rightarrow> Str href
                     | Inl e \<Rightarrow> Str placeholderUrl)
                  else Str placeholderUrl)" for v0
    by (simp only: resolveThumbnail_fields resolveThumbnail_url)
  have nonempty: "\<exists>url. thumbnailUrl (resolveThumbnail be v0) = Str url \<and> url \<noteq> []" for v0
    using assms placeholderUrl_nonempty
    by (auto simp: resolveThumbnail_url split: sum.splits)
  have all: "\<forall>result. getAllVideos rt be sortOption searchQuery = Inr result \<longrightarrow>
            (\<forall>v\<in>set result.
               thumbnailUrl v
                 = (if truthy (js_or (thumbnailFileId v) (thumbnail_id v)) then
                      (case getFileView be (thumbnailsBucketId be)
                              (js_or (thumbnailFileId v) (thumbnail_id v)) of
                         Inr href \<Rightarrow> Str href
                       | Inl e \<Rightarrow> Str placeholderUrl)
                    else Str placeholderUrl)
               \<and> (\<exists>url. thumbnailUrl v = Str url \<and> url \<noteq> []))"
  proof (intro allI impI ballI)
    fix result v
    assume "getAllVideos rt be sortOption searchQuery = Inr result" and "v \<in> set result"
    then obtain v0 where "v = resolveThumbnail be v0"
      using getAllVideos_resolved by blast
    with url [of v0] nonempty [of v0]
    show "thumbnailUrl v
                 = (if truthy (js_or (thumbnailFileId v) (thumbnail_id v)) then
                      (case getFileView be (thumbnailsBucketId be)
                              (js_or (thumbnailFileId v) (thumbnail_id v)) of
                         Inr href \<Rightarrow> Str href
                       | Inl e \<Rightarrow> Str placeholderUrl)
                    else Str placeholderUrl)
               \<and> (\<exists>url. thumbnailUrl v = Str url \<and> url \<noteq> [])"
      by simp
  qed
  have one: "\<forall>v. getVideo rt be videoId = Inr (Some v) \<longrightarrow>
               thumbnailUrl v
                 = (if truthy (js_or (thumbnailFileId v) (thumbnail_id v)) then
                      (case getFileView be (thumbnailsBucketId be)
                              (js_or (thumbnailFileId v) (thumbnail_id v)) of
                         Inr href \<Rightarrow> Str href
                       | Inl e \<Rightarrow> Str placeholderUrl)
                    else Str placeholderUrl)
               \<and> (\<exists>url. thumbnailUrl v = Str url \<and> url \<noteq> [])"
  proof (intro allI impI)
    fix v assume "getVideo rt be videoId = Inr (Some v)"
    then obtain v0 where "v = resolveThumbnail be v0"
      by (auto simp: getVideo_def getVideo_try_def split: sum.splits)
    with url [of v0] nonempty [of v0]
    show "thumbnailUrl v
                 = (if truthy (js_or (thumbnailFileId v) (thumbnail_id v)) then
                      (case getFileView be (thumbnailsBucketId be)
                              (js_or (thumbnailFileId v) (thumbnail_id v)) of
                         Inr href \<Rightarrow> Str href
                       | Inl e \<Rightarrow> Str placeholderUrl)
                    else Str placeholderUrl)
               \<and> (\<exists>url. thumbnailUrl v = Str url \<and> url \<noteq> [])"
      by simp
  qed
  have never: "\<forall>e. getVideo rt be videoId \<noteq> Inl e"
    by (simp add: getVideo_def split: sum.splits)
  from all one never getAllVideos_error_independent show ?thesis by blast
qed


theorem thumbnail_always_set_witness:
  "(\<exists>v. getVideo example_runtime example_backend ''v1'' = Inr (Some v)
        \<and> thumbnailUrl v = Str ''https://cdn.example/t1'')
   \<and> (\<exists>v. getVideo example_runtime example_backend ''v2'' = Inr (Some v)
        \<and> thumbnailUrl v = Str placeholderUrl)"
proof -
  have h: "\<forall>bucket fileId href. getFileView example_backend bucket fileId = Inr href \<longrightarrow> href \<noteq> []"
    by (auto simp: example_backend_def split: if_splits)
  let ?v1 = "resolveThumbnail example_backend (normalizeVideo example_runtime catDocument)"
  let ?v2 = "resolveThumbnail example_backend (normalizeVideo example_runtime dogDocument)"
  have g1: "getVideo example_runtime example_backend ''v1'' = Inr (Some ?v1)"
    by (simp add: getVideo_def getVideo_try_def example_backend_def)
  have g2: "getVideo example_runtime example_backend ''v2'' = Inr (Some ?v2)"
    by (simp add: getVideo_def getVideo_try_def example_backend_def)
  have f1: "thumbnailFileId ?v1 = Str ''t1''" "thumbnail_id ?v1 = Str ''t1''"
    by (simp_all add: resolveThumbnail_fields normalizeVideo_def catDocument_def js_or_def)
  have f2: "thumbnailFileId ?v2 = Null" "thumbnail_id ?v2 = Null"
    by (simp_all add: resolveThumbnail_fields normalizeVideo_def dogDocument_def
        emptyDocument_def js_or_def)
  from thumbnail_always_set [OF h, where rt = example_runtime and videoId = "''v1''"] g1
  have "thumbnailUrl ?v1
          = (if truthy (js_or (thumbnailFileId ?v1) (thumbnail_id ?v1)) then
               (case getFileView example_backend (thumbnailsBucketId example_backend)
                       (js_or (thumbnailFileId ?v1) (thumbnail_id ?v1)) of
                  Inr href \<Rightarrow> Str href
                | Inl e \<Rightarrow> Str placeholderUrl)
             else Str placeholderUrl)"
    by blast
  moreover have "getFileView example_backend (thumbnailsBucketId example_backend) (Str ''t1'')
                   = Inr ''https://cdn.example/t1''"
    by (simp add: example_backend_def)
  ultimately have u1: "thumbnailUrl ?v1 = Str ''https://cdn.example/t1''"
    by (simp add: f1 js_or_def)
  from thumbnail_always_set [OF h, where rt = example_runtime and videoId = "''v2''"] g2
  have "thumbnailUrl ?v2
          = (if truthy (js_or (thumbnailFileId ?v2) (thumbnail_id ?v2)) then
               (case getFileView example_backend (thumbnailsBucketId example_backend)
                       (js_or (thumbnailFileId ?v2) (thumbnail_id ?v2)) of
                  Inr href \<Rightarrow> Str href
                | Inl e \<Rightarrow> Str placeholderUrl)
             else Str placeholderUrl)"
    by blast
  then have u2: "thumbnailUrl ?v2 = Str placeholderUrl"
    by (simp add: f2 js_or_def)
  from g1 u1 g2 u2 show ?thesis by simp
qed

section \<open>Search\<close>

lemma resolveThumbnail_title: "title (resolveThumbnail be v) = title v"
  by (simp add: resolveThumbnail_def Let_def split: sum.splits)

lemma matchesQuery_strings:
  assumes "title v = Str t" and "description v = Str s"
  shows "matchesQuery q v = Inr (sublist q (toLowerCase t) \<or> sublist q (toLowerCase s))"
  using assms by (simp add: matchesQuery_def toLowerCase_of_def str_includes_sublist)

lemma trim_nonempty: "trim q \<noteq> [] \<Longrightarrow> q \<noteq> []"
  by (auto simp: trim_def)

text \<open>
  Claim C8. For a search query that is not empty after trimming, \<^verbatim>\<open>getAllVideos\<close> returns
  exactly the normalised records (thumbnails resolved, in the order of the sort) whose
  title or description, in lower case, contains the trimmed query in lower case as a
  contiguous substring; a query that is empty or white space leaves the list unfiltered.
  Titles and descriptions are strings, as the schema declares them: on any other truthy
  value \<^verbatim>\<open>toLowerCase\<close> is not a function.
\<close>

theorem search_filter:
  assumes "listDocuments be = Inr documents"
  shows "(trim searchQuery \<noteq> []
            \<and> (\<forall>d\<in>set documents. \<exists>t s. title (normalizeVideo rt d) = Str t
                                       \<and> description (normalizeVideo rt d) = Str s)
          \<longrightarrow> (\<exists>result.
                getAllVideos rt be sortOption searchQuery = Inr result
                \<and> mset result
                    = image_mset (resolveThumbnail be)
                        (filter_mset
                           (\<lambda>v. \<exists>t s. title v = Str t \<and> description v = Str s
                                    \<and> (sublist (toLowerCase (trim searchQuery)) (toLowerCase t)
                                        \<or> sublist (toLowerCase (trim searchQuery)) (toLowerCase s)))
                           (mset (map (normalizeVideo rt) documents)))))
       \<and> (trim searchQuery = []
          \<longrightarrow> (\<exists>result.
                getAllVideos rt be sortOption searchQuery = Inr result
                \<and> mset result
                    = image_mset (resolveThumbnail be) (mset (map (normalizeVideo rt) documents))))"
proof (intro conjI impI)
  let ?q = "toLowerCase (trim searchQuery)"
  let ?vs = "map (normalizeVideo rt) documents"
  let ?P = "\<lambda>v. \<exists>t s. title v = Str t \<and> description v = Str s
                    \<and> (sublist ?q (toLowerCase t) \<or> sublist ?q (toLowerCase s))"
  assume a: "trim searchQuery \<noteq> []
            \<and> (\<forall>d\<in>set documents. \<exists>t s. title (normalizeVideo rt d) = Str t
                                       \<and> description (normalizeVideo rt d) = Str s)"
  then have strs: "\<forall>v\<in>set ?vs. \<exists>t s. title v = Str t \<and> description v = Str s" by auto
  have m: "matchesQuery ?q v = Inr (?P v)" if "v \<in> set ?vs" for v
  proof -
    from strs that obtain t s where ts: "title v = Str t" "description v = Str s" by blast
    then show ?thesis by (simp add: matchesQuery_strings)
  qed
  then have "\<forall>v\<in>set ?vs. \<exists>keep. matchesQuery ?q v = Inr keep" by blast
  then have "filter_throwing (matchesQuery ?q) ?vs
               = Inr (filter (\<lambda>v. matchesQuery ?q v = Inr True) ?vs)"
    by (rule filter_throwing_total)
  moreover have "filter (\<lambda>v. matchesQuery ?q v = Inr True) ?vs = filter ?P ?vs"
    by (rule filter_cong [OF refl]) (simp add: m)
  ultimately have f: "filter_throwing (matchesQuery ?q) ?vs = Inr (filter ?P ?vs)" by simp
  from a have "searchQuery \<noteq> []" by (simp add: trim_nonempty)
  with a assms f
  have "getAllVideos rt be sortOption searchQuery
          = Inr (js_sort (compareVideos rt sortOption) (map (resolveThumbnail be) (filter ?P ?vs)))"
    by (simp add: getAllVideos_def getAllVideos_try_def)
  moreover have "mset (js_sort (compareVideos rt sortOption) (map (resolveThumbnail be) (filter ?P ?vs)))
                   = image_mset (resolveThumbnail be) (filter_mset ?P (mset ?vs))"
    by (simp add: mset_js_sort)
  ultimately show "\<exists>result.
                getAllVideos rt be sortOption searchQuery = Inr result
                \<and> mset result = image_mset (resolveThumbnail be) (filter_mset ?P (mset ?vs))"
    by blast
next
  assume "trim searchQuery = []"
  with assms
  have "getAllVideos rt be sortOption searchQuery
          = Inr (js_sort (compareVideos rt sortOption)
                   (map (resolveThumbnail be) (map (normalizeVideo rt) documents)))"
    by (simp add: getAllVideos_def getAllVideos_try_def)
  moreover have "mset (js_sort (compareVideos rt sortOption)
                   (map (resolveThumbnail be) (map (normalizeVideo rt) documents)))
                 = image_mset (resolveThumbnail be) (mset (map (normalizeVideo rt) documents))"
    by (simp add: mset_js_sort multiset.map_comp)
  ultimately show "\<exists>result.
                getAllVideos rt be sortOption searchQuery = Inr result
                \<and> mset result
                    = image_mset (resolveThumbnail be) (mset (map (normalizeVideo rt) documents))"
    by blast
qed

theorem search_filter_witness:
  "(\<exists>result. getAllVideos example_runtime example_backend NEWEST '' CAT '' = Inr result
       \<and> map title result = [Str ''Cat Video''])
   \<and> (\<exists>result. getAllVideos example_runtime example_backend NEWEST ''  '' = Inr result
       \<and> length result = 2)"
proof -
  let ?nc = "normalizeVideo example_runtime catDocument"
  let ?nd = "normalizeVideo example_runtime dogDocument"
  let ?R = "resolveThumbnail example_backend"
  have l: "listDocuments example_backend = Inr [catDocument, dogDocument]"
    by (simp add: example_backend_def)
  have tc: "title ?nc = Str ''Cat Video''" "description ?nc = Str ''A cat.''"
    by (simp_all add: normalizeVideo_def catDocument_def js_or_def)
  have td: "title ?nd = Str ''Dog Clip''" "description ?nd = Str []"
    by (simp_all add: normalizeVideo_def dogDocument_def emptyDocument_def js_or_def)
  have ne: "trim '' CAT '' \<noteq> []" by code_simp
  have e: "trim ''  '' = []" by code_simp
  have q: "toLowerCase (trim '' CAT '') = ''cat''" by code_simp
  have pc: "sublist ''cat'' (toLowerCase ''Cat Video'')"
    unfolding str_includes_sublist [symmetric] by code_simp
  have pd: "\<not> sublist ''cat'' (toLowerCase ''Dog Clip'')" "\<not> sublist ''cat'' (toLowerCase [])"
    unfolding str_includes_sublist [symmetric] by code_simp+
  note sf = search_filter [OF l, where rt = example_runtime and sortOption = NEWEST]
  from sf [where searchQuery = "'' CAT ''"] ne tc td
  obtain r1 where r1: "getAllVideos example_runtime example_backend NEWEST '' CAT '' = Inr r1"
    and m1: "mset r1 = image_mset ?R
               (filter_mset
                  (\<lambda>v. \<exists>t s. title v = Str t \<and> description v = Str s
                           \<and> (sublist (toLowerCase (trim '' CAT '')) (toLowerCase t)
                               \<or> sublist (toLowerCase (trim '' CAT '')) (toLowerCase s)))
                  (mset (map (normalizeVideo example_runtime) [catDocument, dogDocument])))"
    by auto
  from m1 have "mset r1 = {# ?R ?nc #}"
    by (simp add: q tc td pc pd)
  then have "r1 = [?R ?nc]" by simp
  then have t1: "map title r1 = [Str ''Cat Video'']"
    by (simp add: resolveThumbnail_title tc)
  from sf [where searchQuery = "''  ''"] e
  obtain r2 where r2: "getAllVideos example_runtime example_backend NEWEST ''  '' = Inr r2"
    and m2: "mset r2 = image_mset ?R
               (mset (map (normalizeVideo example_runtime) [catDocument, dogDocument]))"
    by auto
  from m2 have "size (mset r2) = 2" by simp
  then have t2: "length r2 = 2" by simp
  from r1 t1 r2 t2 show ?thesis by simp
qed

end
